theory Spec2Isabelle
  imports Complex_Main
begin

section \<open>Python values and library primitives\<close>

text \<open>
  Values decoded from JSON, as \<^verbatim>\<open>json.loads\<close> returns them. \<open>JNull\<close> is Python's
  \<^verbatim>\<open>None\<close>, so it is also what \<^verbatim>\<open>dict.get\<close> returns for a missing key. Python's
  \<^verbatim>\<open>float\<close> is idealised as an exact rational: the binary rounding error of IEEE
  doubles is not modelled (and neither are NaN and the infinities).
\<close>

datatype json =
    JNull
  | JBool bool
  | JInt int
  | JFloat rat
  | JStr string
  | JArr "json list"
  | JObj "(string \<times> json) list"

text \<open>The exceptions that the modelled code paths raise.\<close>

datatype exn =
    ValueError string
  | TypeError
  | AttributeError
  | DecodeError
  | JSONDecodeError
  | ProgrammingError
  | OverflowError
  | IntegrityError

type_synonym 'a result = "exn + 'a"

text \<open>
  The library functions that \<^verbatim>\<open>main.py\<close> imports and that are not part of the
  repository. Every definition below takes them as a parameter, so every theorem holds
  for whatever they compute. Strings are byte strings; \<^verbatim>\<open>str.encode()\<close> is the
  identity.
\<close>

record pylib =
  b64decode :: "string \<Rightarrow> string option"
    \<comment> \<open>\<^verbatim>\<open>base64.b64decode(s).decode()\<close>; \<open>None\<close> when either call raises\<close>
  json_loads :: "string \<Rightarrow> json option"
    \<comment> \<open>\<^verbatim>\<open>json.loads(s)\<close>; \<open>None\<close> when it raises\<close>
  hmac_sha256 :: "string \<Rightarrow> string \<Rightarrow> string"
    \<comment> \<open>\<^verbatim>\<open>hmac.new(key, msg, hashlib.sha256).digest()\<close>\<close>
  b64encode :: "string \<Rightarrow> string"
    \<comment> \<open>\<^verbatim>\<open>base64.b64encode(d).decode()\<close>\<close>
  py_repr :: "json \<Rightarrow> string"
    \<comment> \<open>\<^verbatim>\<open>str(v)\<close> of a float, a list or a dict\<close>
  sqlite_real_text :: "rat \<Rightarrow> string"
    \<comment> \<open>the text SQLite converts a REAL to\<close>

subsection \<open>Formatting\<close>

definition digit_char :: "nat \<Rightarrow> char" where
  "digit_char n = ''0123456789'' ! (n mod 10)"

fun digits :: "nat \<Rightarrow> string" where
  "digits n = (if n < 10 then [digit_char n] else digits (n div 10) @ [digit_char n])"

declare digits.simps [simp del]

definition show_int :: "int \<Rightarrow> string" where
  "show_int n = (if n < 0 then ''-'' @ digits (nat (- n)) else digits (nat n))"

text \<open>\<^verbatim>\<open>str(v)\<close>, which is what an f-string \<^verbatim>\<open>{v}\<close> interpolates.\<close>

fun py_str :: "pylib \<Rightarrow> json \<Rightarrow> string" where
  "py_str lib JNull = ''None''"
| "py_str lib (JBool b) = (if b then ''True'' else ''False'')"
| "py_str lib (JInt n) = show_int n"
| "py_str lib (JStr s) = s"
| "py_str lib v = py_repr lib v"

text \<open>
  \<^verbatim>\<open>d.get(k)\<close> on a decoded JSON object. An object is the list of its members;
  \<^verbatim>\<open>json.loads\<close> keeps one value per key.
\<close>

definition dict_get :: "(string \<times> json) list \<Rightarrow> string \<Rightarrow> json" where
  "dict_get kv k = (case map_of kv k of None \<Rightarrow> JNull | Some v \<Rightarrow> v)"

subsection \<open>Rounding\<close>

text \<open>
  \<^verbatim>\<open>round(x, 2)\<close> and the format \<^verbatim>\<open>f"{x:.2f}"\<close> both round to the nearest multiple
  of 0.01, ties to even.
\<close>

definition round_half_even :: "rat \<Rightarrow> int" where
  "round_half_even y =
     (let f = \<lfloor>y\<rfloor>; d = y - of_int f
      in if d < 1 / 2 then f
         else if 1 / 2 < d then f + 1
         else if even f then f else f + 1)"

definition round2 :: "rat \<Rightarrow> rat" where
  "round2 x = of_int (round_half_even (x * 100)) / 100"

definition format_2f :: "rat \<Rightarrow> string" where
  "format_2f x =
     (let c = nat (round_half_even (\<bar>x\<bar> * 100))
      in (if x < 0 then ''-'' else '''') @ digits (c div 100) @ ''.''
         @ [digit_char (c div 10), digit_char c])"

section \<open>Configuration\<close>

record config =
  BASE_URL :: string
  ESEWA_PRODUCT_CODE :: string
  ESEWA_SECRET_KEY :: string
  ESEWA_FORM_URL :: string

text \<open>The values \<^verbatim>\<open>main.py\<close> falls back to when the environment sets none.\<close>

definition default_config :: config where
  "default_config =
     \<lparr>BASE_URL = ''http://localhost:8000'',
      ESEWA_PRODUCT_CODE = ''EPAYTEST'',
      ESEWA_SECRET_KEY = ''8gBm/:&EnhH.1/q'',
      ESEWA_FORM_URL = ''https://rc-epay.esewa.com.np/api/epay/main/v2/form''\<rparr>"

section \<open>The database (\<^verbatim>\<open>database.py\<close>)\<close>

record product =
  p_id :: int
  p_name :: string
  p_description :: string
  p_price :: rat
  p_image_url :: string

record order =
  o_id :: int
  transaction_uuid :: string
  customer_name :: string
  customer_email :: string
  customer_phone :: string
  customer_address :: string
  amount :: rat
  tax_amount :: rat
  service_charge :: rat
  delivery_charge :: rat
  total_amount :: rat
  status :: string
  created_at :: string

record order_item =
  i_id :: int
  order_id :: int
  product_id :: int
  quantity :: int
  price :: rat

text \<open>
  The three tables in insertion order, each with the counter that
  \<^verbatim>\<open>AUTOINCREMENT\<close> keeps in \<^verbatim>\<open>sqlite_sequence\<close>.
\<close>

record db =
  products :: "product list"
  product_seq :: int
  orders :: "order list"
  order_seq :: int
  order_items :: "order_item list"
  item_seq :: int

definition empty_db :: db where
  "empty_db = \<lparr>products = [], product_seq = 0, orders = [], order_seq = 0,
               order_items = [], item_seq = 0\<rparr>"

text \<open>
  The rowid an \<^verbatim>\<open>AUTOINCREMENT\<close> insert takes: one more than the largest rowid
  that is or ever was in the table.
\<close>

definition next_rowid :: "int \<Rightarrow> int list \<Rightarrow> int" where
  "next_rowid seq ids = fold max ids seq + 1"

definition insert_product :: "string \<times> string \<times> rat \<times> string \<Rightarrow> db \<Rightarrow> int \<times> db" where
  "insert_product row d =
     (case row of (name, description, pr, image_url) \<Rightarrow>
        let pid = next_rowid (product_seq d) (map p_id (products d))
        in (pid,
            d\<lparr>products := products d @
                 [\<lparr>p_id = pid, p_name = name, p_description = description,
                   p_price = pr, p_image_url = image_url\<rparr>],
              product_seq := pid\<rparr>))"

definition seed_products :: "(string \<times> string \<times> rat \<times> string) list" where
  "seed_products =
     [(''Classic Aviator Sunglasses'',
       ''Timeless aviator frames with UV400 protection and mirrored lenses.'',
       5999 / 100, ''/static/images/aviator.png''),
      (''Retro Round Sunglasses'',
       ''Vintage-inspired round sunglasses with polarized lenses.'',
       4550 / 100, ''/static/images/retro.png''),
      (''Sporty Wraparound Shades'',
       ''Durable wraparound sunglasses designed for outdoor sports.'',
       39, ''/static/images/sporty.png''),
      (''Lucky Purchase'',
       ''Try your luck! Mystery sunglasses at an amazing price.'',
       1, ''/static/images/lucky.png'')]"

definition init_db :: "db \<Rightarrow> db" where
  "init_db d =
     (if length (products d) = 0
      then fold (\<lambda>row d'. snd (insert_product row d')) seed_products d
      else d)"

definition get_products :: "db \<Rightarrow> product list" where
  "get_products d = products d"

definition get_product :: "db \<Rightarrow> int \<Rightarrow> product option" where
  "get_product d pid = find (\<lambda>p. p_id p = pid) (products d)"

definition create_product :: "string \<Rightarrow> string \<Rightarrow> rat \<Rightarrow> string \<Rightarrow> db \<Rightarrow> int \<times> db" where
  "create_product name description pr image_url d =
     insert_product (name, description, pr, image_url) d"

definition update_product :: "int \<Rightarrow> string \<Rightarrow> string \<Rightarrow> rat \<Rightarrow> string \<Rightarrow> db \<Rightarrow> db" where
  "update_product pid name description pr image_url d =
     d\<lparr>products :=
         map (\<lambda>p. if p_id p = pid
                  then p\<lparr>p_name := name, p_description := description,
                         p_price := pr, p_image_url := image_url\<rparr>
                  else p)
             (products d)\<rparr>"

definition delete_product :: "int \<Rightarrow> db \<Rightarrow> db" where
  "delete_product pid d = d\<lparr>products := filter (\<lambda>p. p_id p \<noteq> pid) (products d)\<rparr>"

subsection \<open>Orders\<close>

text \<open>A cart entry is a \<^verbatim>\<open>Dict[str, int]\<close>.\<close>

type_synonym cart_item = "(string \<times> int) list"

definition item_pid :: "cart_item \<Rightarrow> int option" where
  \<comment> \<open>\<^verbatim>\<open>item.get("productId")\<close>\<close>
  "item_pid item = map_of item ''productId''"

definition item_qty :: "cart_item \<Rightarrow> int" where
  \<comment> \<open>\<^verbatim>\<open>item.get("quantity", 1)\<close>\<close>
  "item_qty item = (case map_of item ''quantity'' of None \<Rightarrow> 1 | Some q \<Rightarrow> q)"

definition select_price :: "db \<Rightarrow> int option \<Rightarrow> rat option" where
  \<comment> \<open>\<^verbatim>\<open>SELECT price FROM products WHERE id = ?\<close>, \<^verbatim>\<open>fetchone()\<close>; a NULL id matches no row\<close>
  "select_price d pid =
     (case pid of
        None \<Rightarrow> None
      | Some i \<Rightarrow> map_option p_price (find (\<lambda>p. p_id p = i) (products d)))"

definition pid_str :: "int option \<Rightarrow> string" where
  "pid_str pid = (case pid of None \<Rightarrow> ''None'' | Some i \<Rightarrow> show_int i)"

text \<open>The first loop of \<^verbatim>\<open>create_order\<close>, with its accumulator \<^verbatim>\<open>amount\<close>.\<close>

fun compute_subtotal :: "db \<Rightarrow> cart_item list \<Rightarrow> rat \<Rightarrow> rat result" where
  "compute_subtotal d [] acc = Inr acc"
| "compute_subtotal d (item # cart) acc =
     (let pid = item_pid item; qty = item_qty item
      in case select_price d pid of
           None \<Rightarrow> Inl (ValueError (''Product '' @ pid_str pid @ '' not found''))
         | Some pr \<Rightarrow> compute_subtotal d cart (acc + pr * of_int qty))"

text \<open>
  The second loop. \<^verbatim>\<open>price_row["price"]\<close> raises \<^verbatim>\<open>TypeError\<close> when the row is
  \<^verbatim>\<open>None\<close>.
\<close>

fun insert_order_items :: "int \<Rightarrow> cart_item list \<Rightarrow> db \<Rightarrow> db result" where
  "insert_order_items oid [] d = Inr d"
| "insert_order_items oid (item # cart) d =
     (let qty = item_qty item
      in case item_pid item of
           None \<Rightarrow> Inl TypeError
         | Some pid \<Rightarrow>
             (case select_price d (Some pid) of
                None \<Rightarrow> Inl TypeError
              | Some pr \<Rightarrow>
                  (let iid = next_rowid (item_seq d) (map i_id (order_items d))
                   in insert_order_items oid cart
                        (d\<lparr>order_items := order_items d @
                             [\<lparr>i_id = iid, order_id = oid, product_id = pid,
                               quantity = qty, price = pr\<rparr>],
                           item_seq := iid\<rparr>))))"

definition get_order_by_id :: "db \<Rightarrow> int \<Rightarrow> order option" where
  "get_order_by_id d oid = find (\<lambda>r. o_id r = oid) (orders d)"

definition get_order_by_uuid :: "db \<Rightarrow> string \<Rightarrow> order option" where
  "get_order_by_uuid d uuid = find (\<lambda>r. transaction_uuid r = uuid) (orders d)"

text \<open>
  The statements of \<^verbatim>\<open>create_order\<close> up to the final \<^verbatim>\<open>SELECT\<close>, on the
  connection's own view of the database. \<open>uuid\<close> is the value of
  \<^verbatim>\<open>str(uuid.uuid4())\<close> and \<open>now\<close> that of \<^verbatim>\<open>CURRENT_TIMESTAMP\<close>. The column
  \<^verbatim>\<open>transaction_uuid\<close> is \<^verbatim>\<open>UNIQUE\<close>: inserting a second row with the same value
  raises \<^verbatim>\<open>IntegrityError\<close>.
\<close>

definition create_order_txn ::
  "string \<Rightarrow> string \<Rightarrow> string \<Rightarrow> string \<Rightarrow> cart_item list \<Rightarrow> rat \<Rightarrow> rat \<Rightarrow> rat
   \<Rightarrow> string \<Rightarrow> string \<Rightarrow> db \<Rightarrow> (order \<times> db) result" where
  "create_order_txn name email phone address cart tax service delivery uuid now d =
     (case compute_subtotal d cart 0 of
        Inl e \<Rightarrow> Inl e
      | Inr s \<Rightarrow>
          (let amt = round2 s;
               total_amt = round2 (amt + tax + service + delivery)
           in if uuid \<in> set (map transaction_uuid (orders d)) then Inl IntegrityError
              else
                (let oid = next_rowid (order_seq d) (map o_id (orders d));
                     d1 = d\<lparr>orders := orders d @
                            [\<lparr>o_id = oid, transaction_uuid = uuid, customer_name = name,
                              customer_email = email, customer_phone = phone,
                              customer_address = address, amount = amt, tax_amount = tax,
                              service_charge = service, delivery_charge = delivery,
                              total_amount = total_amt, status = ''INITIATED'',
                              created_at = now\<rparr>],
                          order_seq := oid\<rparr>
                 in case insert_order_items oid cart d1 of
                      Inl e \<Rightarrow> Inl e
                    | Inr d2 \<Rightarrow>
                        (case get_order_by_id d2 oid of
                           None \<Rightarrow> Inl TypeError
                         | Some row \<Rightarrow> Inr (row, d2)))))"

text \<open>
  \<^verbatim>\<open>create_order\<close>: the writes reach the database at \<^verbatim>\<open>conn.commit()\<close>; when a
  statement raises before it, the connection is dropped uncommitted and the database
  keeps its old content.
\<close>

definition create_order ::
  "string \<Rightarrow> string \<Rightarrow> string \<Rightarrow> string \<Rightarrow> cart_item list \<Rightarrow> rat \<Rightarrow> rat \<Rightarrow> rat
   \<Rightarrow> string \<Rightarrow> string \<Rightarrow> db \<Rightarrow> order result \<times> db" where
  "create_order name email phone address cart tax service delivery uuid now d =
     (case create_order_txn name email phone address cart tax service delivery uuid now d of
        Inl e \<Rightarrow> (Inl e, d)
      | Inr (row, d') \<Rightarrow> (Inr row, d'))"

text \<open>
  What the \<^verbatim>\<open>sqlite3\<close> driver binds a Python value to: \<^verbatim>\<open>None\<close>, numbers and
  strings are supported (\<^verbatim>\<open>bool\<close> is an \<^verbatim>\<open>int\<close>), an integer outside 64 bits raises
  \<^verbatim>\<open>OverflowError\<close>, a list or a dict raises \<^verbatim>\<open>ProgrammingError\<close>.
\<close>

datatype sqlval = SqlNull | SqlInt int | SqlReal rat | SqlText string

fun bind_param :: "json \<Rightarrow> sqlval result" where
  "bind_param JNull = Inr SqlNull"
| "bind_param (JBool b) = Inr (SqlInt (if b then 1 else 0))"
| "bind_param (JInt n) =
     (if - (2 ^ 63) \<le> n \<and> n < 2 ^ 63 then Inr (SqlInt n) else Inl OverflowError)"
| "bind_param (JFloat r) = Inr (SqlReal r)"
| "bind_param (JStr s) = Inr (SqlText s)"
| "bind_param (JArr xs) = Inl ProgrammingError"
| "bind_param (JObj kv) = Inl ProgrammingError"

text \<open>
  \<^verbatim>\<open>transaction_uuid = ?\<close> on a \<^verbatim>\<open>TEXT\<close> column: SQLite converts a numeric parameter
  to text before comparing, and nothing equals NULL.
\<close>

fun text_equals :: "pylib \<Rightarrow> sqlval \<Rightarrow> string \<Rightarrow> bool" where
  "text_equals lib SqlNull t = False"
| "text_equals lib (SqlInt n) t = (show_int n = t)"
| "text_equals lib (SqlReal r) t = (sqlite_real_text lib r = t)"
| "text_equals lib (SqlText s) t = (s = t)"

text \<open>
  \<^verbatim>\<open>update_order_status\<close>. Python does not check the annotation
  \<^verbatim>\<open>transaction_uuid: str\<close>, and \<^verbatim>\<open>esewa_callback\<close> passes whatever the payload
  holds, so the parameter is any decoded value.
\<close>

definition update_order_status :: "pylib \<Rightarrow> json \<Rightarrow> string \<Rightarrow> db \<Rightarrow> unit result \<times> db" where
  "update_order_status lib uuid new_status d =
     (case bind_param uuid of
        Inl e \<Rightarrow> (Inl e, d)
      | Inr p \<Rightarrow>
          (Inr (),
           d\<lparr>orders :=
               map (\<lambda>r. if text_equals lib p (transaction_uuid r)
                        then r\<lparr>status := new_status\<rparr> else r)
                   (orders d)\<rparr>))"

section \<open>The application (\<^verbatim>\<open>main.py\<close>)\<close>

datatype response =
    FileResponse string
  | TemplateResponse string
  | RedirectResponse string nat
  | JSONResponse json
  | HTTPException nat string

definition html_response :: "string \<Rightarrow> response" where
  "html_response filename = FileResponse filename"

definition product_json :: "product \<Rightarrow> json" where
  "product_json p =
     JObj [(''id'', JInt (p_id p)), (''name'', JStr (p_name p)),
           (''description'', JStr (p_description p)), (''price'', JFloat (p_price p)),
           (''image_url'', JStr (p_image_url p))]"

definition api_products :: "db \<Rightarrow> response" where
  "api_products d = JSONResponse (JObj [(''products'', JArr (map product_json (get_products d)))])"

subsection \<open>Order creation\<close>

text \<open>
  The decoded body of \<^verbatim>\<open>POST /api/order\<close>, with values of the types that
  \<^verbatim>\<open>create_order\<close> annotates; \<open>None\<close> is a key that the body lacks.
\<close>

record order_request =
  r_customerName :: "string option"
  r_customerEmail :: "string option"
  r_customerPhone :: "string option"
  r_customerAddress :: "string option"
  r_cart :: "cart_item list option"
  r_tax_amount :: "rat option"
  r_service_charge :: "rat option"
  r_delivery_charge :: "rat option"

definition missing_field :: "string \<Rightarrow> db \<Rightarrow> response \<times> db" where
  "missing_field field d = (HTTPException 400 (''Missing field '' @ field), d)"

text \<open>
  \<^verbatim>\<open>api_create_order\<close>. A body of \<open>None\<close> is one that \<^verbatim>\<open>request.json()\<close> rejects.
  The required fields are checked in the order of the list \<^verbatim>\<open>required\<close>.
\<close>

definition api_create_order ::
  "order_request option \<Rightarrow> string \<Rightarrow> string \<Rightarrow> db \<Rightarrow> response \<times> db" where
  "api_create_order body uuid now d =
     (case body of
        None \<Rightarrow> (HTTPException 400 ''Invalid JSON body'', d)
      | Some data \<Rightarrow>
     (case r_customerName data of None \<Rightarrow> missing_field ''customerName'' d | Some name \<Rightarrow>
     (case r_customerEmail data of None \<Rightarrow> missing_field ''customerEmail'' d | Some email \<Rightarrow>
     (case r_customerPhone data of None \<Rightarrow> missing_field ''customerPhone'' d | Some phone \<Rightarrow>
     (case r_customerAddress data of None \<Rightarrow> missing_field ''customerAddress'' d | Some address \<Rightarrow>
     (case r_cart data of None \<Rightarrow> missing_field ''cart'' d | Some cart \<Rightarrow>
     (case r_tax_amount data of None \<Rightarrow> missing_field ''tax_amount'' d | Some tax \<Rightarrow>
     (case r_service_charge data of None \<Rightarrow> missing_field ''service_charge'' d | Some service \<Rightarrow>
     (case r_delivery_charge data of None \<Rightarrow> missing_field ''delivery_charge'' d | Some delivery \<Rightarrow>
     (case create_order name email phone address cart tax service delivery uuid now d of
        (Inr row, d') \<Rightarrow> (JSONResponse (JObj [(''orderId'', JInt (o_id row))]), d')
      | (Inl (ValueError msg), d') \<Rightarrow> (HTTPException 400 msg, d')
      | (Inl _, d') \<Rightarrow> (HTTPException 500 ''Server error'', d')))))))))))"

subsection \<open>Payment initiation\<close>

definition generate_signature :: "pylib \<Rightarrow> config \<Rightarrow> string \<Rightarrow> string \<Rightarrow> string" where
  "generate_signature lib cfg total_str uuid =
     (let data_string = ''total_amount='' @ total_str @ '',transaction_uuid='' @ uuid
                        @ '',product_code='' @ ESEWA_PRODUCT_CODE cfg;
          digest = hmac_sha256 lib (ESEWA_SECRET_KEY cfg) data_string
      in b64encode lib digest)"

text \<open>The dictionary \<^verbatim>\<open>form_data\<close> of \<^verbatim>\<open>api_initiate_payment\<close>, in source order.\<close>

definition form_data :: "pylib \<Rightarrow> config \<Rightarrow> order \<Rightarrow> (string \<times> string) list" where
  "form_data lib cfg row =
     (let signature = generate_signature lib cfg (format_2f (total_amount row))
                        (transaction_uuid row)
      in [(''amount'', format_2f (amount row)),
          (''tax_amount'', format_2f (tax_amount row)),
          (''total_amount'', format_2f (total_amount row)),
          (''transaction_uuid'', transaction_uuid row),
          (''product_code'', ESEWA_PRODUCT_CODE cfg),
          (''product_service_charge'', format_2f (service_charge row)),
          (''product_delivery_charge'', format_2f (delivery_charge row)),
          (''success_url'', BASE_URL cfg @ ''/esewa-callback''),
          (''failure_url'', BASE_URL cfg @ ''/esewa-callback?status=fail''),
          (''signed_field_names'', ''total_amount,transaction_uuid,product_code''),
          (''signature'', signature)])"

text \<open>The decoded body of \<^verbatim>\<open>POST /api/initiate-payment\<close>, with an integer order id.\<close>

record payment_request =
  r_orderId :: "int option"

definition api_initiate_payment ::
  "pylib \<Rightarrow> config \<Rightarrow> payment_request option \<Rightarrow> db \<Rightarrow> response \<times> db" where
  "api_initiate_payment lib cfg body d =
     (case body of
        None \<Rightarrow> (HTTPException 400 ''Invalid JSON body'', d)
      | Some data \<Rightarrow>
          (case r_orderId data of
             None \<Rightarrow> (HTTPException 400 ''Missing orderId'', d)
           | Some oid \<Rightarrow>
               if oid = 0 then (HTTPException 400 ''Missing orderId'', d)
               else
                 (case get_order_by_id d oid of
                    None \<Rightarrow> (HTTPException 404 ''Order not found'', d)
                  | Some row \<Rightarrow>
                      (JSONResponse
                         (JObj [(''formData'',
                                 JObj (map (\<lambda>(k, v). (k, JStr v)) (form_data lib cfg row))),
                                (''gatewayUrl'', JStr (ESEWA_FORM_URL cfg))]),
                       d))))"

subsection \<open>The gateway's callback\<close>

definition verify_string :: "pylib \<Rightarrow> config \<Rightarrow> (string \<times> json) list \<Rightarrow> string" where
  "verify_string lib cfg payload =
     ''transaction_code='' @ py_str lib (dict_get payload ''transaction_code'')
     @ '',status='' @ py_str lib (dict_get payload ''status'')
     @ '',total_amount='' @ py_str lib (dict_get payload ''total_amount'')
     @ '',transaction_uuid='' @ py_str lib (dict_get payload ''transaction_uuid'')
     @ '',product_code='' @ ESEWA_PRODUCT_CODE cfg
     @ '',signed_field_names='' @ py_str lib (dict_get payload ''signed_field_names'')"

definition computed_sig :: "pylib \<Rightarrow> config \<Rightarrow> (string \<times> json) list \<Rightarrow> string" where
  "computed_sig lib cfg payload =
     b64encode lib (hmac_sha256 lib (ESEWA_SECRET_KEY cfg) (verify_string lib cfg payload))"

definition success_page :: response where
  "success_page = RedirectResponse ''/success.html'' 307"

definition failure_page :: response where
  "failure_page = RedirectResponse ''/failure.html'' 307"

text \<open>
  The \<^verbatim>\<open>try\<close> block of \<^verbatim>\<open>esewa_callback\<close>: \<open>Inr (Some r)\<close> when it returns \<open>r\<close>,
  \<open>Inr None\<close> when control leaves it at its end, \<open>Inl e\<close> when it raises \<open>e\<close>.
  \<^verbatim>\<open>payload.get\<close> raises \<^verbatim>\<open>AttributeError\<close> on a payload that is no object.
\<close>

definition callback_try ::
  "pylib \<Rightarrow> config \<Rightarrow> string \<Rightarrow> db \<Rightarrow> response option result \<times> db" where
  "callback_try lib cfg encoded_data d =
     (case b64decode lib encoded_data of
        None \<Rightarrow> (Inl DecodeError, d)
      | Some decoded_json \<Rightarrow>
          (case json_loads lib decoded_json of
             None \<Rightarrow> (Inl JSONDecodeError, d)
           | Some (JObj payload) \<Rightarrow>
               (let received_sig = dict_get payload ''signature''
                in if JStr (computed_sig lib cfg payload) = received_sig
                      \<and> dict_get payload ''status'' = JStr ''COMPLETE''
                   then
                     (case update_order_status lib (dict_get payload ''transaction_uuid'')
                             ''COMPLETED'' d of
                        (Inl e, d') \<Rightarrow> (Inl e, d')
                      | (Inr u, d') \<Rightarrow> (Inr (Some success_page), d'))
                   else (Inr None, d))
           | Some _ \<Rightarrow> (Inl AttributeError, d)))"

text \<open>\<^verbatim>\<open>esewa_callback\<close>; \<open>query\<close> is \<^verbatim>\<open>request.query_params.get\<close>.\<close>

definition esewa_callback ::
  "pylib \<Rightarrow> config \<Rightarrow> (string \<Rightarrow> string option) \<Rightarrow> db \<Rightarrow> response \<times> db" where
  "esewa_callback lib cfg query d =
     (if query ''status'' = Some ''fail'' then (failure_page, d)
      else
        (case query ''data'' of
           None \<Rightarrow> (failure_page, d)
         | Some encoded_data \<Rightarrow>
             if encoded_data = [] then (failure_page, d)
             else
               (case callback_try lib cfg encoded_data d of
                  (Inr (Some r), d') \<Rightarrow> (r, d')
                | (_, d') \<Rightarrow> (failure_page, d'))))"

subsection \<open>The admin pages\<close>

definition admin_products :: "int option \<Rightarrow> int option \<Rightarrow> db \<Rightarrow> response \<times> db" where
  "admin_products edit_id delete_id d =
     (case delete_id of
        Some i \<Rightarrow>
          if i \<noteq> 0 then (RedirectResponse ''/admin/products'' 303, delete_product i d)
          else (TemplateResponse ''admin_products.html'', d)
      | None \<Rightarrow> (TemplateResponse ''admin_products.html'', d))"

definition admin_save_product ::
  "int option \<Rightarrow> string option \<Rightarrow> string option \<Rightarrow> rat option \<Rightarrow> string option \<Rightarrow> db
   \<Rightarrow> response \<times> db" where
  "admin_save_product pid name description pr image_url d =
     (case (name, description, pr, image_url) of
        (Some n, Some ds, Some p, Some img) \<Rightarrow>
          if n = [] \<or> ds = [] \<or> p = 0 \<or> img = []
          then (RedirectResponse ''/admin/products'' 303, d)
          else
            (case pid of
               Some i \<Rightarrow>
                 if i \<noteq> 0
                 then (RedirectResponse ''/admin/products'' 303, update_product i n ds p img d)
                 else (RedirectResponse ''/admin/products'' 303,
                       snd (create_product n ds p img d))
             | None \<Rightarrow>
                 (RedirectResponse ''/admin/products'' 303, snd (create_product n ds p img d)))
      | _ \<Rightarrow> (RedirectResponse ''/admin/products'' 303, d))"

definition admin_confirm_order :: "pylib \<Rightarrow> string \<Rightarrow> db \<Rightarrow> response \<times> db" where
  "admin_confirm_order lib uuid d =
     (case update_order_status lib (JStr uuid) ''COMPLETED'' d of
        (Inl e, d') \<Rightarrow> (HTTPException 500 ''Internal Server Error'', d')
      | (Inr u, d') \<Rightarrow> (RedirectResponse ''/admin/orders'' 303, d'))"

subsection \<open>The server\<close>

datatype request =
    Index
  | CartPage
  | CheckoutPage
  | SuccessPage
  | FailurePage
  | ApiProducts
  | ApiCreateOrder "order_request option" string string
  | ApiInitiatePayment "payment_request option"
  | EsewaCallback "string \<Rightarrow> string option"
  | AdminHome
  | AdminProducts "int option" "int option"
  | AdminSaveProduct "int option" "string option" "string option" "rat option" "string option"
  | AdminOrders
  | AdminConfirmOrder string

fun serve :: "pylib \<Rightarrow> config \<Rightarrow> request \<Rightarrow> db \<Rightarrow> response \<times> db" where
  "serve lib cfg Index d = (html_response ''index.html'', d)"
| "serve lib cfg CartPage d = (html_response ''cart.html'', d)"
| "serve lib cfg CheckoutPage d = (html_response ''checkout.html'', d)"
| "serve lib cfg SuccessPage d = (html_response ''success.html'', d)"
| "serve lib cfg FailurePage d = (html_response ''failure.html'', d)"
| "serve lib cfg ApiProducts d = (api_products d, d)"
| "serve lib cfg (ApiCreateOrder body uuid now) d = api_create_order body uuid now d"
| "serve lib cfg (ApiInitiatePayment body) d = api_initiate_payment lib cfg body d"
| "serve lib cfg (EsewaCallback query) d = esewa_callback lib cfg query d"
| "serve lib cfg AdminHome d = (TemplateResponse ''admin_dashboard.html'', d)"
| "serve lib cfg (AdminProducts edit_id delete_id) d = admin_products edit_id delete_id d"
| "serve lib cfg (AdminSaveProduct pid name description pr image_url) d =
     admin_save_product pid name description pr image_url d"
| "serve lib cfg AdminOrders d = (TemplateResponse ''admin_orders.html'', d)"
| "serve lib cfg (AdminConfirmOrder uuid) d = admin_confirm_order lib uuid d"

text \<open>
  A server run: \<^verbatim>\<open>startup\<close> initialises the database, then the requests are served
  one after the other.
\<close>

definition startup :: "db \<Rightarrow> db" where
  "startup d = init_db d"

definition serve_all :: "pylib \<Rightarrow> config \<Rightarrow> request list \<Rightarrow> db \<Rightarrow> db" where
  "serve_all lib cfg reqs d = fold (\<lambda>req d'. snd (serve lib cfg req d')) reqs d"

definition run :: "pylib \<Rightarrow> config \<Rightarrow> request list \<Rightarrow> db \<Rightarrow> db" where
  "run lib cfg reqs d = serve_all lib cfg reqs (startup d)"

section \<open>Specification-side notions\<close>

text \<open>The sum of price times quantity over a cart, with the prices of database \<open>d\<close>.\<close>

definition line_total :: "db \<Rightarrow> cart_item \<Rightarrow> rat" where
  "line_total d item =
     (case select_price d (item_pid item) of
        None \<Rightarrow> 0
      | Some pr \<Rightarrow> pr * of_int (item_qty item))"

definition cart_sum :: "db \<Rightarrow> cart_item list \<Rightarrow> rat" where
  "cart_sum d cart = sum_list (map (line_total d) cart)"

text \<open>A cart entry names a product of the store.\<close>

definition known_product :: "db \<Rightarrow> cart_item \<Rightarrow> bool" where
  "known_product d item =
     (case item_pid item of None \<Rightarrow> False | Some i \<Rightarrow> get_product d i \<noteq> None)"

text \<open>What the second loop appends: one row per cart entry, in cart order.\<close>

definition items_match :: "db \<Rightarrow> int \<Rightarrow> cart_item list \<Rightarrow> order_item list \<Rightarrow> bool" where
  "items_match d oid cart rows \<longleftrightarrow>
     list_all2 (\<lambda>item r. order_id r = oid \<and> item_pid item = Some (product_id r)
                  \<and> quantity r = item_qty item
                  \<and> select_price d (item_pid item) = Some (price r)) cart rows"

text \<open>
  The order row that a successful \<^verbatim>\<open>create_order\<close> inserts and returns, in terms of
  \<open>cart_sum\<close>.
\<close>

definition new_order ::
  "string \<Rightarrow> string \<Rightarrow> string \<Rightarrow> string \<Rightarrow> cart_item list \<Rightarrow> rat \<Rightarrow> rat \<Rightarrow> rat
   \<Rightarrow> string \<Rightarrow> string \<Rightarrow> db \<Rightarrow> order" where
  "new_order name email phone address cart tax service delivery uuid now d =
     \<lparr>o_id = next_rowid (order_seq d) (map o_id (orders d)), transaction_uuid = uuid,
      customer_name = name, customer_email = email, customer_phone = phone,
      customer_address = address, amount = round2 (cart_sum d cart), tax_amount = tax,
      service_charge = service, delivery_charge = delivery,
      total_amount = round2 (round2 (cart_sum d cart) + tax + service + delivery),
      status = ''INITIATED'', created_at = now\<rparr>"

text \<open>A cart entry with the default quantity written out.\<close>

definition with_quantity :: "cart_item \<Rightarrow> cart_item" where
  "with_quantity item =
     (if map_of item ''quantity'' = None then item @ [(''quantity'', 1)] else item)"




text \<open>The string that the outbound signature is computed over.\<close>

definition signing_string :: "config \<Rightarrow> order \<Rightarrow> string" where
  "signing_string cfg row =
     ''total_amount='' @ format_2f (total_amount row)
     @ '',transaction_uuid='' @ transaction_uuid row
     @ '',product_code='' @ ESEWA_PRODUCT_CODE cfg"

text \<open>
  The payload that \<^verbatim>\<open>esewa_callback\<close> gets to verify: the decoded \<^verbatim>\<open>data\<close>
  parameter, when there is no failure flag, the parameter is present and not empty,
  and it decodes to a JSON object.
\<close>

definition callback_payload ::
  "pylib \<Rightarrow> (string \<Rightarrow> string option) \<Rightarrow> (string \<times> json) list option" where
  "callback_payload lib query =
     (if query ''status'' = Some ''fail'' then None
      else
        (case query ''data'' of
           None \<Rightarrow> None
         | Some encoded_data \<Rightarrow>
             if encoded_data = [] then None
             else
               (case b64decode lib encoded_data of
                  None \<Rightarrow> None
                | Some decoded_json \<Rightarrow>
                    (case json_loads lib decoded_json of
                       Some (JObj payload) \<Rightarrow> Some payload
                     | _ \<Rightarrow> None))))"

definition signature_ok :: "pylib \<Rightarrow> config \<Rightarrow> (string \<times> json) list \<Rightarrow> bool" where
  "signature_ok lib cfg payload \<longleftrightarrow>
     dict_get payload ''signature'' = JStr (computed_sig lib cfg payload)"

text \<open>The rows that \<^verbatim>\<open>UPDATE orders SET status = ? WHERE transaction_uuid = ?\<close> leaves.\<close>

definition set_status :: "pylib \<Rightarrow> sqlval \<Rightarrow> string \<Rightarrow> order list \<Rightarrow> order list" where
  "set_status lib p new_status rows =
     map (\<lambda>r. if text_equals lib p (transaction_uuid r) then r\<lparr>status := new_status\<rparr> else r)
         rows"

text \<open>
  How the order table may change from one state to a later one: rows stay where they
  are and keep their id and transaction id, and a status stays or becomes \<open>COMPLETED\<close>.
  Rows may be added at the end.
\<close>

definition row_advances :: "order \<Rightarrow> order \<Rightarrow> bool" where
  "row_advances r r' \<longleftrightarrow>
     o_id r' = o_id r \<and> transaction_uuid r' = transaction_uuid r
     \<and> (status r' = status r \<or> status r' = ''COMPLETED'')"

definition advances :: "db \<Rightarrow> db \<Rightarrow> bool" where
  "advances d d' \<longleftrightarrow>
     length (orders d) \<le> length (orders d')
     \<and> list_all2 row_advances (orders d) (take (length (orders d)) (orders d'))"

text \<open>The rows that a later state has added.\<close>

definition added_orders :: "db \<Rightarrow> db \<Rightarrow> order list" where
  "added_orders d d' = drop (length (orders d)) (orders d')"

text \<open>Every stored order is \<open>INITIATED\<close> or \<open>COMPLETED\<close>.\<close>

definition status_ok :: "db \<Rightarrow> bool" where
  "status_ok d \<longleftrightarrow>
     list_all (\<lambda>r. status r = ''INITIATED'' \<or> status r = ''COMPLETED'') (orders d)"

text \<open>The requests whose handler writes an order status, given the response.\<close>

fun creates_order :: "request \<Rightarrow> bool" where
  "creates_order (ApiCreateOrder body uuid now) = True"
| "creates_order req = False"

fun completes_order :: "request \<Rightarrow> response \<Rightarrow> bool" where
  "completes_order (EsewaCallback query) resp = (resp = success_page)"
| "completes_order (AdminConfirmOrder uuid) resp = True"
| "completes_order req resp = False"

section \<open>Concrete instances\<close>

text \<open>
  A stand-in for the library, to evaluate the handlers on concrete requests: base64 is
  the identity except on \<open>''%''\<close>, which does not decode, the MAC joins key and message,
  and the JSON decoder knows the documents it is given.
\<close>

definition test_lib :: "(string \<times> json) list \<Rightarrow> pylib" where
  "test_lib docs =
     \<lparr>b64decode = (\<lambda>s. if s = ''%'' then None else Some s),
      json_loads = map_of docs,
      hmac_sha256 = (\<lambda>key msg. key @ ''|'' @ msg),
      b64encode = (\<lambda>s. s),
      py_repr = (\<lambda>v. ''[]''),
      sqlite_real_text = (\<lambda>r. ''0.0'')\<rparr>"

definition signed :: "(string \<times> json) list \<Rightarrow> (string \<times> json) list" where
  "signed payload =
     payload @ [(''signature'', JStr (computed_sig (test_lib []) default_config payload))]"

definition gateway_payload :: "string \<Rightarrow> json \<Rightarrow> (string \<times> json) list" where
  "gateway_payload st uuid =
     [(''transaction_code'', JStr ''0007''), (''status'', JStr st),
      (''total_amount'', JStr ''129.98''), (''transaction_uuid'', uuid),
      (''signed_field_names'',
       JStr ''transaction_code,status,total_amount,transaction_uuid,product_code,signed_field_names'')]"

definition test_docs :: "(string \<times> json) list" where
  "test_docs =
     [(''paid'', JObj (signed (gateway_payload ''COMPLETE'' (JStr ''u1'')))),
      (''paid-unknown'', JObj (signed (gateway_payload ''COMPLETE'' (JStr ''u9'')))),
      (''paid-array'', JObj (signed (gateway_payload ''COMPLETE'' (JArr [])))),
      (''pending'', JObj (signed (gateway_payload ''PENDING'' (JStr ''u1'')))),
      (''forged'',
       JObj (gateway_payload ''COMPLETE'' (JStr ''u1'') @ [(''signature'', JStr ''AAAA'')])),
      (''array'', JArr [])]"

definition lib0 :: pylib where
  "lib0 = test_lib test_docs"

definition sample_cart :: "cart_item list" where
  "sample_cart = [[(''productId'', 1), (''quantity'', 2)]]"

definition sample_request :: order_request where
  "sample_request =
     \<lparr>r_customerName = Some ''Asha'', r_customerEmail = Some ''asha@example.com'',
      r_customerPhone = Some ''9800000000'', r_customerAddress = Some ''Kathmandu'',
      r_cart = Some sample_cart, r_tax_amount = Some 5, r_service_charge = Some 2,
      r_delivery_charge = Some 3\<rparr>"

text \<open>The seeded shop, and the shop after one order for \<open>sample_cart\<close>.\<close>

definition shop_db :: db where
  "shop_db = startup empty_db"



definition order_db :: db where
  "order_db =
     snd (create_order ''Asha'' ''asha@example.com'' ''9800000000'' ''Kathmandu''
            sample_cart 5 2 3 ''u1'' ''2024-01-01 00:00:00'' shop_db)"

section \<open>The status update and the callback\<close>

lemma update_order_status_twice:
  "update_order_status lib u s (snd (update_order_status lib u s d)) = update_order_status lib u s d"
  by (cases "bind_param u") (simp_all add: update_order_status_def o_def)

lemma update_order_status_Inl:
  "bind_param u = Inl e \<Longrightarrow> update_order_status lib u s d = (Inl e, d)"
  by (simp add: update_order_status_def)

lemma update_order_status_Inr:
  "bind_param u = Inr p \<Longrightarrow>
   update_order_status lib u s d = (Inr (), d\<lparr>orders := set_status lib p s (orders d)\<rparr>)"
  by (simp add: update_order_status_def set_status_def)

lemma esewa_callback_eq:
  "esewa_callback lib cfg query d =
     (case callback_payload lib query of
        None \<Rightarrow> (failure_page, d)
      | Some payload \<Rightarrow>
          if signature_ok lib cfg payload \<and> dict_get payload ''status'' = JStr ''COMPLETE''
          then
            (case update_order_status lib (dict_get payload ''transaction_uuid'')
                    ''COMPLETED'' d of
               (Inl e, d') \<Rightarrow> (failure_page, d')
             | (Inr u, d') \<Rightarrow> (success_page, d'))
          else (failure_page, d))"
  by (auto simp: esewa_callback_def callback_payload_def callback_try_def signature_ok_def
        Let_def split: option.splits json.splits sum.splits prod.splits)

lemma esewa_callback_verified:
  assumes "callback_payload lib query = Some payload"
    and "signature_ok lib cfg payload"
    and "dict_get payload ''status'' = JStr ''COMPLETE''"
  shows "esewa_callback lib cfg query d =
     (case bind_param (dict_get payload ''transaction_uuid'') of
        Inl e \<Rightarrow> (failure_page, d)
      | Inr p \<Rightarrow> (success_page, d\<lparr>orders := set_status lib p ''COMPLETED'' (orders d)\<rparr>))"
  using assms
  by (simp add: esewa_callback_eq update_order_status_Inl update_order_status_Inr
        split: sum.splits)

lemma esewa_callback_rejected:
  assumes "callback_payload lib query = None
     \<or> (\<exists>payload. callback_payload lib query = Some payload
           \<and> (\<not> signature_ok lib cfg payload \<or> dict_get payload ''status'' \<noteq> JStr ''COMPLETE''))"
  shows "esewa_callback lib cfg query d = (failure_page, d)"
  using assms by (auto simp: esewa_callback_eq)

lemma success_neq_failure: "success_page \<noteq> failure_page"
  by (simp add: success_page_def failure_page_def)

section \<open>The concrete instances, evaluated\<close>

lemma shop_db_eq: "shop_db =
  \<lparr>products =
    [\<lparr>p_id = 1, p_name = ''Classic Aviator Sunglasses'',
        p_description = ''Timeless aviator frames with UV400 protection and mirrored lenses.'',
        p_price = 5999 / 100, p_image_url = ''/static/images/aviator.png''\<rparr>,
     \<lparr>p_id = 2, p_name = ''Retro Round Sunglasses'',
        p_description = ''Vintage-inspired round sunglasses with polarized lenses.'',
        p_price = 4550 / 100, p_image_url = ''/static/images/retro.png''\<rparr>,
     \<lparr>p_id = 3, p_name = ''Sporty Wraparound Shades'',
        p_description = ''Durable wraparound sunglasses designed for outdoor sports.'',
        p_price = 39, p_image_url = ''/static/images/sporty.png''\<rparr>,
     \<lparr>p_id = 4, p_name = ''Lucky Purchase'',
        p_description = ''Try your luck! Mystery sunglasses at an amazing price.'',
        p_price = 1, p_image_url = ''/static/images/lucky.png''\<rparr>],
    product_seq = 4, orders = [], order_seq = 0, order_items = [], item_seq = 0\<rparr>"
  by (simp add: shop_db_def startup_def init_db_def empty_db_def seed_products_def
        insert_product_def next_rowid_def Let_def)

lemma round2_11998: "round2 (5999 / 50) = 5999 / 50"
  by (simp add: round2_def round_half_even_def Let_def)

lemma round2_12998: "round2 (6499 / 50) = 6499 / 50"
  by (simp add: round2_def round_half_even_def Let_def)

lemma sample_order: "create_order ''Asha'' ''asha@example.com'' ''9800000000'' ''Kathmandu''
            sample_cart 5 2 3 ''u1'' ''2024-01-01 00:00:00'' shop_db =
  (Inr \<lparr>o_id = 1, transaction_uuid = ''u1'', customer_name = ''Asha'',
         customer_email = ''asha@example.com'',
         customer_phone = ''9800000000'', customer_address = ''Kathmandu'',
         amount = 5999 / 50, tax_amount = 5, service_charge = 2,
         delivery_charge = 3, total_amount = 6499 / 50,
         status = ''INITIATED'', created_at = ''2024-01-01 00:00:00''\<rparr>,
   shop_db\<lparr>orders :=
       [\<lparr>o_id = 1, transaction_uuid = ''u1'', customer_name = ''Asha'',
           customer_email = ''asha@example.com'',
           customer_phone = ''9800000000'',
           customer_address = ''Kathmandu'', amount = 5999 / 50,
           tax_amount = 5, service_charge = 2, delivery_charge = 3,
           total_amount = 6499 / 50, status = ''INITIATED'',
           created_at = ''2024-01-01 00:00:00''\<rparr>],
     order_seq := 1,
     order_items :=
       [\<lparr>i_id = 1, order_id = 1, product_id = 1, quantity = 2,
           price = 5999 / 100\<rparr>],
     item_seq := 1\<rparr>)"
  by (simp add: create_order_def create_order_txn_def sample_cart_def shop_db_eq
        item_pid_def item_qty_def select_price_def next_rowid_def get_order_by_id_def
        round2_11998 round2_12998 Let_def)

lemma order_db_orders: "orders order_db =
       [\<lparr>o_id = 1, transaction_uuid = ''u1'', customer_name = ''Asha'',
           customer_email = ''asha@example.com'',
           customer_phone = ''9800000000'',
           customer_address = ''Kathmandu'', amount = 5999 / 50,
           tax_amount = 5, service_charge = 2, delivery_charge = 3,
           total_amount = 6499 / 50, status = ''INITIATED'',
           created_at = ''2024-01-01 00:00:00''\<rparr>]"
  by (simp add: order_db_def sample_order)

lemma payload_of_doc:
  "callback_payload lib0 [''data'' \<mapsto> ''paid''] = Some (signed (gateway_payload ''COMPLETE'' (JStr ''u1'')))"
  "callback_payload lib0 [''data'' \<mapsto> ''paid-unknown''] = Some (signed (gateway_payload ''COMPLETE'' (JStr ''u9'')))"
  "callback_payload lib0 [''data'' \<mapsto> ''paid-array''] = Some (signed (gateway_payload ''COMPLETE'' (JArr [])))"
  "callback_payload lib0 [''data'' \<mapsto> ''pending''] = Some (signed (gateway_payload ''PENDING'' (JStr ''u1'')))"
  "callback_payload lib0 [''data'' \<mapsto> ''forged''] =
     Some (gateway_payload ''COMPLETE'' (JStr ''u1'') @ [(''signature'', JStr ''AAAA'')])"
  "callback_payload lib0 [''data'' \<mapsto> ''array''] = None"
  "callback_payload lib0 [''data'' \<mapsto> ''%''] = None"
  "callback_payload lib0 [''data'' \<mapsto> ''{''] = None"
  "callback_payload lib0 Map.empty = None"
  by (simp_all add: callback_payload_def lib0_def test_lib_def test_docs_def)

lemma signed_fields:
  "dict_get (signed (gateway_payload st uuid)) ''status'' = JStr st"
  "dict_get (signed (gateway_payload st uuid)) ''transaction_uuid'' = uuid"
  by (simp_all add: signed_def gateway_payload_def dict_get_def)

lemma signed_ok: "signature_ok lib0 default_config (signed (gateway_payload st uuid))"
  by (cases uuid)
    (simp_all add: signature_ok_def signed_def gateway_payload_def dict_get_def
       computed_sig_def verify_string_def lib0_def test_lib_def)

lemma forged_not_ok:
  "\<not> signature_ok lib0 default_config
        (gateway_payload ''COMPLETE'' (JStr ''u1'') @ [(''signature'', JStr ''AAAA'')])"
  by (simp add: signature_ok_def gateway_payload_def dict_get_def computed_sig_def
        verify_string_def lib0_def test_lib_def default_config_def)


lemma set_status_none:
  assumes "\<forall>r\<in>set rows. \<not> text_equals lib p (transaction_uuid r)"
  shows "set_status lib p s rows = rows"
  using assms by (simp add: set_status_def map_idI)

lemma set_status_twice:
  "set_status lib p s (set_status lib p s rows) = set_status lib p s rows"
  by (simp add: set_status_def o_def)


section \<open>Claims about the callback\<close>


lemma callback_paid:
  "esewa_callback lib0 default_config [''data'' \<mapsto> ''paid''] order_db
     = (success_page, order_db\<lparr>orders := set_status lib0 (SqlText ''u1'') ''COMPLETED'' (orders order_db)\<rparr>)"
  by (simp add: esewa_callback_verified [OF payload_of_doc(1) signed_ok signed_fields(1)]
        signed_fields)



text \<open>
  Claim C2. \<^verbatim>\<open>esewa_callback\<close> redirects to the failure page and leaves the database
  as it is when the \<open>data\<close> parameter is missing, when it is not base64 of text, when
  the decoded text is not JSON, when the payload's signature differs from the computed
  one, and when the payload's status is not the string \<open>COMPLETE\<close>.
\<close>

theorem esewa_callback_fails:
  assumes "query ''data'' = None
     \<or> (\<exists>enc. query ''data'' = Some enc \<and> b64decode lib enc = None)
     \<or> (\<exists>enc dj. query ''data'' = Some enc \<and> b64decode lib enc = Some dj
           \<and> json_loads lib dj = None)
     \<or> (\<exists>payload. callback_payload lib query = Some payload
           \<and> \<not> signature_ok lib cfg payload)
     \<or> (\<exists>payload. callback_payload lib query = Some payload
           \<and> dict_get payload ''status'' \<noteq> JStr ''COMPLETE'')"
  shows "esewa_callback lib cfg query d = (failure_page, d)"
proof -
  consider (undecoded) "callback_payload lib query = None"
    | (refused) payload where "callback_payload lib query = Some payload"
        "\<not> signature_ok lib cfg payload \<or> dict_get payload ''status'' \<noteq> JStr ''COMPLETE''"
    using assms by (auto simp: callback_payload_def)
  then show ?thesis
  proof cases
    case undecoded
    then show ?thesis by (simp add: esewa_callback_rejected)
  next
    case refused
    then show ?thesis by (intro esewa_callback_rejected) auto
  qed
qed

text \<open>One instance of C2 for each of the five cases, on the shop with one order.\<close>

theorem esewa_callback_fails_witness:
  "Map.empty ''data'' = (None :: string option)
   \<and> esewa_callback lib0 default_config Map.empty order_db = (failure_page, order_db)
   \<and> b64decode lib0 ''%'' = None
   \<and> esewa_callback lib0 default_config [''data'' \<mapsto> ''%''] order_db = (failure_page, order_db)
   \<and> b64decode lib0 ''{'' = Some ''{'' \<and> json_loads lib0 ''{'' = None
   \<and> esewa_callback lib0 default_config [''data'' \<mapsto> ''{''] order_db = (failure_page, order_db)
   \<and> \<not> signature_ok lib0 default_config
         (gateway_payload ''COMPLETE'' (JStr ''u1'') @ [(''signature'', JStr ''AAAA'')])
   \<and> esewa_callback lib0 default_config [''data'' \<mapsto> ''forged''] order_db = (failure_page, order_db)
   \<and> dict_get (signed (gateway_payload ''PENDING'' (JStr ''u1''))) ''status'' \<noteq> JStr ''COMPLETE''
   \<and> esewa_callback lib0 default_config [''data'' \<mapsto> ''pending''] order_db = (failure_page, order_db)"
proof -
  have a: "Map.empty ''data'' = (None :: string option)" by simp
  have b: "b64decode lib0 ''%'' = None" by (simp add: lib0_def test_lib_def)
  have c: "b64decode lib0 ''{'' = Some ''{''" "json_loads lib0 ''{'' = None"
    by (simp_all add: lib0_def test_lib_def test_docs_def)
  have e: "dict_get (signed (gateway_payload ''PENDING'' (JStr ''u1''))) ''status'' \<noteq> JStr ''COMPLETE''"
    by (simp add: signed_fields)
  have "esewa_callback lib0 default_config Map.empty order_db = (failure_page, order_db)"
    by (rule esewa_callback_fails) simp
  moreover have "esewa_callback lib0 default_config [''data'' \<mapsto> ''%''] order_db = (failure_page, order_db)"
    by (rule esewa_callback_fails) (simp add: b)
  moreover have "esewa_callback lib0 default_config [''data'' \<mapsto> ''{''] order_db = (failure_page, order_db)"
    by (rule esewa_callback_fails) (simp add: c)
  moreover have "esewa_callback lib0 default_config [''data'' \<mapsto> ''forged''] order_db = (failure_page, order_db)"
    by (rule esewa_callback_fails) (simp add: payload_of_doc forged_not_ok)
  moreover have "esewa_callback lib0 default_config [''data'' \<mapsto> ''pending''] order_db = (failure_page, order_db)"
    by (rule esewa_callback_fails) (simp add: payload_of_doc e)
  ultimately show ?thesis
    using a b c e forged_not_ok by blast
qed

lemma esewa_callback_twice:
  "esewa_callback lib cfg query (snd (esewa_callback lib cfg query d))
     = esewa_callback lib cfg query d"
proof (cases "callback_payload lib query")
  case None
  then show ?thesis by (simp add: esewa_callback_rejected)
next
  case (Some payload)
  show ?thesis
  proof (cases "signature_ok lib cfg payload \<and> dict_get payload ''status'' = JStr ''COMPLETE''")
    case False
    with Some have "esewa_callback lib cfg query d' = (failure_page, d')" for d'
      by (intro esewa_callback_rejected) auto
    then show ?thesis by simp
  next
    case True
    with Some have eq: "esewa_callback lib cfg query d' =
       (case bind_param (dict_get payload ''transaction_uuid'') of
          Inl e \<Rightarrow> (failure_page, d')
        | Inr p \<Rightarrow> (success_page, d'\<lparr>orders := set_status lib p ''COMPLETED'' (orders d')\<rparr>))" for d'
      by (simp add: esewa_callback_verified)
    show ?thesis
      by (cases "bind_param (dict_get payload ''transaction_uuid'')")
        (simp_all add: eq set_status_twice)
  qed
qed

lemma admin_confirm_order_eq:
  "admin_confirm_order lib uuid d =
     (RedirectResponse ''/admin/orders'' 303,
      d\<lparr>orders := set_status lib (SqlText uuid) ''COMPLETED'' (orders d)\<rparr>)"
  by (simp add: admin_confirm_order_def update_order_status_Inr)

text \<open>
  Claim C7. The status update is idempotent: for every transaction id and status,
  \<^verbatim>\<open>update_order_status\<close> applied to its own result returns the same result and the
  same database; so do \<^verbatim>\<open>esewa_callback\<close>, for a callback delivered twice, and
  \<^verbatim>\<open>admin_confirm_order\<close>.
\<close>

theorem update_order_status_idempotent:
  "update_order_status lib uuid new_status (snd (update_order_status lib uuid new_status d))
     = update_order_status lib uuid new_status d
   \<and> esewa_callback lib cfg query (snd (esewa_callback lib cfg query d))
       = esewa_callback lib cfg query d
   \<and> admin_confirm_order lib u (snd (admin_confirm_order lib u d))
       = admin_confirm_order lib u d"
  by (simp add: update_order_status_twice esewa_callback_twice admin_confirm_order_eq
        set_status_twice)

text \<open>
  Claim C10, as amended. For a callback whose payload passes the signature check and
  has status \<open>COMPLETE\<close>: when the payload's \<open>transaction_uuid\<close> is a value that the
  database driver binds (absent or null, a string, a number, a boolean) and it selects
  no stored order, \<^verbatim>\<open>esewa_callback\<close> redirects to the success page and the database
  is unchanged; when the driver refuses the value (a JSON array or object, an integer
  outside 64 bits), the update raises, the handler swallows the exception and redirects
  to the failure page, the database unchanged.
\<close>

theorem esewa_callback_unknown_order:
  assumes "callback_payload lib query = Some payload"
    and "signature_ok lib cfg payload"
    and "dict_get payload ''status'' = JStr ''COMPLETE''"
  shows "(\<forall>p. bind_param (dict_get payload ''transaction_uuid'') = Inr p
            \<and> (\<forall>r\<in>set (orders d). \<not> text_equals lib p (transaction_uuid r))
          \<longrightarrow> esewa_callback lib cfg query d = (success_page, d))
       \<and> (\<forall>e. bind_param (dict_get payload ''transaction_uuid'') = Inl e
          \<longrightarrow> esewa_callback lib cfg query d = (failure_page, d))"
  by (simp add: esewa_callback_verified [OF assms] set_status_none)

text \<open>
  The instance of C10 on the shop with one order \<open>u1\<close>: a verified callback for the
  unknown \<open>u9\<close> succeeds and changes nothing; one whose transaction id is an array
  fails.
\<close>

theorem esewa_callback_unknown_order_witness:
  "callback_payload lib0 [''data'' \<mapsto> ''paid-unknown'']
     = Some (signed (gateway_payload ''COMPLETE'' (JStr ''u9'')))
   \<and> signature_ok lib0 default_config (signed (gateway_payload ''COMPLETE'' (JStr ''u9'')))
   \<and> dict_get (signed (gateway_payload ''COMPLETE'' (JStr ''u9''))) ''status'' = JStr ''COMPLETE''
   \<and> bind_param (dict_get (signed (gateway_payload ''COMPLETE'' (JStr ''u9''))) ''transaction_uuid'')
      = Inr (SqlText ''u9'')
   \<and> map transaction_uuid (orders order_db) = [''u1'']
   \<and> esewa_callback lib0 default_config [''data'' \<mapsto> ''paid-unknown''] order_db
      = (success_page, order_db)
   \<and> bind_param (dict_get (signed (gateway_payload ''COMPLETE'' (JArr []))) ''transaction_uuid'')
      = Inl ProgrammingError
   \<and> esewa_callback lib0 default_config [''data'' \<mapsto> ''paid-array''] order_db
      = (failure_page, order_db)"
proof -
  have b: "bind_param (dict_get (signed (gateway_payload ''COMPLETE'' (JStr ''u9''))) ''transaction_uuid'')
      = Inr (SqlText ''u9'')"
    by (simp add: signed_fields)
  have n: "\<forall>r\<in>set (orders order_db). \<not> text_equals lib0 (SqlText ''u9'') (transaction_uuid r)"
    by (simp add: order_db_orders)
  have a: "bind_param (dict_get (signed (gateway_payload ''COMPLETE'' (JArr []))) ''transaction_uuid'')
      = Inl ProgrammingError"
    by (simp add: signed_fields)
  have u: "map transaction_uuid (orders order_db) = [''u1'']"
    by (simp add: order_db_orders)
  from b n
    esewa_callback_unknown_order [OF payload_of_doc(2) signed_ok signed_fields(1), of order_db]
  have 1: "esewa_callback lib0 default_config [''data'' \<mapsto> ''paid-unknown''] order_db
      = (success_page, order_db)"
    by blast
  from a
    esewa_callback_unknown_order [OF payload_of_doc(3) signed_ok signed_fields(1), of order_db]
  have 2: "esewa_callback lib0 default_config [''data'' \<mapsto> ''paid-array''] order_db
      = (failure_page, order_db)"
    by blast
  from payload_of_doc(2) signed_ok signed_fields(1) b u 1 a 2 show ?thesis
    by blast
qed

text \<open>
  C10 as stated fails: the callback \<open>paid-array\<close> passes the signature check, has status
  \<open>COMPLETE\<close> and a \<open>transaction_uuid\<close> (the empty array) that is the transaction id of
  no stored order, and the handler redirects to the failure page, not to the success
  page.
\<close>

theorem esewa_callback_unknown_order_counterexample:
  "callback_payload lib0 [''data'' \<mapsto> ''paid-array'']
     = Some (signed (gateway_payload ''COMPLETE'' (JArr [])))
   \<and> signature_ok lib0 default_config (signed (gateway_payload ''COMPLETE'' (JArr [])))
   \<and> dict_get (signed (gateway_payload ''COMPLETE'' (JArr []))) ''status'' = JStr ''COMPLETE''
   \<and> dict_get (signed (gateway_payload ''COMPLETE'' (JArr []))) ''transaction_uuid'' = JArr []
   \<and> map transaction_uuid (orders order_db) = [''u1'']
   \<and> fst (esewa_callback lib0 default_config [''data'' \<mapsto> ''paid-array''] order_db)
      = failure_page
   \<and> fst (esewa_callback lib0 default_config [''data'' \<mapsto> ''paid-array''] order_db)
      \<noteq> success_page"
proof -
  have "esewa_callback lib0 default_config [''data'' \<mapsto> ''paid-array''] order_db
      = (failure_page, order_db)"
    by (simp add: esewa_callback_verified [OF payload_of_doc(3) signed_ok signed_fields(1)]
          signed_fields)
  then show ?thesis
    by (simp add: payload_of_doc signed_ok signed_fields order_db_orders
          success_neq_failure [symmetric])
qed

section \<open>Order creation\<close>

lemma select_price_known:
  "select_price d (item_pid item) = None \<longleftrightarrow> \<not> known_product d item"
  by (simp add: select_price_def known_product_def get_product_def split: option.splits)

lemma select_price_products:
  "products d' = products d \<Longrightarrow> select_price d' pid = select_price d pid"
  by (cases pid) (simp_all add: select_price_def)

lemma known_product_products:
  "products d' = products d \<Longrightarrow> known_product d' item = known_product d item"
  by (cases "item_pid item") (simp_all add: known_product_def get_product_def)

lemma compute_subtotal_known:
  "\<forall>item\<in>set cart. known_product d item \<Longrightarrow>
   compute_subtotal d cart acc = Inr (acc + cart_sum d cart)"
proof (induction cart arbitrary: acc)
  case Nil
  then show ?case by (simp add: cart_sum_def)
next
  case (Cons item cart)
  from Cons.prems obtain pr where pr: "select_price d (item_pid item) = Some pr"
    using select_price_known [of d item] by auto
  with Cons show ?case
    by (simp add: cart_sum_def line_total_def Let_def add.assoc)
qed

lemma compute_subtotal_unknown:
  "\<exists>item\<in>set cart. \<not> known_product d item \<Longrightarrow>
   \<exists>item\<in>set cart. \<not> known_product d item \<and>
     compute_subtotal d cart acc
       = Inl (ValueError (''Product '' @ pid_str (item_pid item) @ '' not found''))"
proof (induction cart arbitrary: acc)
  case Nil
  then show ?case by simp
next
  case (Cons item cart)
  show ?case
  proof (cases "select_price d (item_pid item)")
    case None
    then have "\<not> known_product d item"
      by (simp add: select_price_known)
    with None show ?thesis
      by (auto simp: Let_def)
  next
    case (Some pr)
    then have "known_product d item"
      using select_price_known [of d item] by simp
    with Cons.prems have "\<exists>item\<in>set cart. \<not> known_product d item"
      by auto
    from Cons.IH [OF this, of "acc + pr * of_int (item_qty item)"] Some show ?thesis
      by (auto simp: Let_def)
  qed
qed

lemma compute_subtotal_Inr_known:
  "compute_subtotal d cart acc = Inr s \<Longrightarrow> \<forall>item\<in>set cart. known_product d item"
  using compute_subtotal_unknown [of cart d acc] by auto

lemma insert_order_items_known:
  "\<forall>item\<in>set cart. known_product d item \<Longrightarrow>
   \<exists>d2 rows. insert_order_items oid cart d = Inr d2
     \<and> products d2 = products d \<and> product_seq d2 = product_seq d
     \<and> orders d2 = orders d \<and> order_seq d2 = order_seq d
     \<and> order_items d2 = order_items d @ rows
     \<and> items_match d oid cart rows"
proof (induction cart arbitrary: d)
  case Nil
  then show ?case by (simp add: items_match_def)
next
  case (Cons item cart)
  from Cons.prems have "known_product d item" by simp
  then obtain pid where pid: "item_pid item = Some pid"
    by (cases "item_pid item") (auto simp: known_product_def)
  from \<open>known_product d item\<close> obtain pr where pr: "select_price d (Some pid) = Some pr"
    using select_price_known [of d item] pid by auto
  define r where "r = \<lparr>i_id = next_rowid (item_seq d) (map i_id (order_items d)),
    order_id = oid, product_id = pid, quantity = item_qty item, price = pr\<rparr>"
  define d1 where "d1 = d\<lparr>order_items := order_items d @ [r], item_seq := i_id r\<rparr>"
  have step: "insert_order_items oid (item # cart) d = insert_order_items oid cart d1"
    by (simp add: pid pr Let_def d1_def r_def)
  have same: "products d1 = products d" "product_seq d1 = product_seq d"
    "orders d1 = orders d" "order_seq d1 = order_seq d"
    "order_items d1 = order_items d @ [r]"
    by (simp_all add: d1_def)
  from Cons.prems have "\<forall>item\<in>set cart. known_product d1 item"
    by (simp add: known_product_products [OF same(1)])
  from Cons.IH [OF this] obtain d2 rows where
    res: "insert_order_items oid cart d1 = Inr d2"
      and fr: "products d2 = products d1" "product_seq d2 = product_seq d1"
        "orders d2 = orders d1" "order_seq d2 = order_seq d1"
      and it: "order_items d2 = order_items d1 @ rows"
      and m: "items_match d1 oid cart rows"
    by blast
  have sp: "select_price d1 pid' = select_price d pid'" for pid'
    by (rule select_price_products [OF same(1)])
  have m': "items_match d oid (item # cart) (r # rows)"
    using m by (simp add: items_match_def sp pid pr r_def)
  have "insert_order_items oid (item # cart) d = Inr d2"
    by (simp only: step res)
  moreover have "order_items d2 = order_items d @ (r # rows)"
    by (simp add: it same)
  moreover have "products d2 = products d" "product_seq d2 = product_seq d"
    "orders d2 = orders d" "order_seq d2 = order_seq d"
    by (simp_all add: fr same)
  ultimately show ?case
    using m' by blast
qed

lemma fold_max_ge: "(s::int) \<le> fold max ids s \<and> (\<forall>i\<in>set ids. i \<le> fold max ids s)"
proof (induction ids arbitrary: s)
  case Nil
  then show ?case by simp
next
  case (Cons a ids)
  from Cons.IH [of "max a s"] show ?case
    by auto
qed

lemma next_rowid_fresh: "i \<in> set ids \<Longrightarrow> i < next_rowid seq ids"
  using fold_max_ge [of seq ids] by (auto simp: next_rowid_def)

lemma find_append_new:
  "\<forall>x\<in>set xs. \<not> P x \<Longrightarrow> P y \<Longrightarrow> find P (xs @ [y]) = Some y"
  by (induction xs) auto

lemma get_order_by_id_new:
  assumes "orders d2 = rows @ [row]" and "o_id row = next_rowid seq (map o_id rows)"
  shows "get_order_by_id d2 (o_id row) = Some row"
proof -
  have "\<forall>r\<in>set rows. \<not> o_id r = o_id row"
    using next_rowid_fresh [of _ "map o_id rows" seq] assms(2) by fastforce
  then show ?thesis
    by (simp add: get_order_by_id_def assms(1) find_append_new)
qed

lemma create_order_known:
  assumes known: "\<forall>item\<in>set cart. known_product d item"
    and fresh: "uuid \<notin> set (map transaction_uuid (orders d))"
  shows "\<exists>d' rows.
     create_order name email phone address cart tax service delivery uuid now d
       = (Inr (new_order name email phone address cart tax service delivery uuid now d), d')
     \<and> products d' = products d \<and> product_seq d' = product_seq d
     \<and> orders d' = orders d
          @ [new_order name email phone address cart tax service delivery uuid now d]
     \<and> order_items d' = order_items d @ rows
     \<and> items_match d (next_rowid (order_seq d) (map o_id (orders d))) cart rows"
proof -
  define row where "row = new_order name email phone address cart tax service delivery uuid now d"
  define oid where "oid = next_rowid (order_seq d) (map o_id (orders d))"
  define d1 where "d1 = d\<lparr>orders := orders d @ [row], order_seq := oid\<rparr>"
  have oid: "o_id row = oid"
    by (simp add: row_def oid_def new_order_def)
  have sub: "compute_subtotal d cart 0 = Inr (cart_sum d cart)"
    using compute_subtotal_known [OF known, of 0] by simp
  have p1: "products d1 = products d"
    by (simp add: d1_def)
  from known have "\<forall>item\<in>set cart. known_product d1 item"
    by (simp add: known_product_products [OF p1])
  from insert_order_items_known [OF this, of oid] obtain d2 rows where
    ins: "insert_order_items oid cart d1 = Inr d2"
      and fr: "products d2 = products d1" "product_seq d2 = product_seq d1"
        "orders d2 = orders d1"
      and it: "order_items d2 = order_items d1 @ rows"
      and m: "items_match d1 oid cart rows"
    by blast
  have o2: "orders d2 = orders d @ [row]"
    by (simp add: fr d1_def)
  have get: "get_order_by_id d2 oid = Some row"
    using get_order_by_id_new [OF o2, of "order_seq d"] by (simp add: oid oid_def)
  have txn: "create_order_txn name email phone address cart tax service delivery uuid now d
      = Inr (row, d2)"
    using fresh ins get
    by (simp add: create_order_txn_def sub Let_def oid_def [symmetric] d1_def row_def new_order_def)
  have m': "items_match d oid cart rows"
    using m by (simp add: items_match_def select_price_products [OF p1])
  have "create_order name email phone address cart tax service delivery uuid now d
      = (Inr row, d2)"
    by (simp add: create_order_def txn)
  moreover have "products d2 = products d" "product_seq d2 = product_seq d"
    "order_items d2 = order_items d @ rows"
    by (simp_all add: fr it d1_def)
  ultimately show ?thesis
    using o2 m' unfolding row_def oid_def by blast
qed


lemma create_order_Inr:
  assumes "create_order name email phone address cart tax service delivery uuid now d
       = (Inr row, d')"
  shows "(\<forall>item\<in>set cart. known_product d item)
     \<and> uuid \<notin> set (map transaction_uuid (orders d))"
proof -
  from assms obtain s where "compute_subtotal d cart 0 = Inr s"
    by (auto simp: create_order_def create_order_txn_def split: sum.splits)
  then have "\<forall>item\<in>set cart. known_product d item"
    by (rule compute_subtotal_Inr_known)
  moreover from assms have "uuid \<notin> set (map transaction_uuid (orders d))"
    by (auto simp: create_order_def create_order_txn_def Let_def split: sum.splits if_splits)
  ultimately show ?thesis by simp
qed


section \<open>Claims about order creation\<close>



lemma shop_price_1: "select_price shop_db (Some 1) = Some (5999 / 100)"
  by (simp add: select_price_def shop_db_eq)

lemma shop_orders: "orders shop_db = []"
  by (simp add: shop_db_eq)













lemma with_quantity_pid: "item_pid (with_quantity item) = item_pid item"
  by (simp add: with_quantity_def item_pid_def map_add_def split: option.splits)

lemma with_quantity_qty: "item_qty (with_quantity item) = item_qty item"
  by (auto simp: with_quantity_def item_qty_def map_add_def split: option.splits)

lemma with_quantity_written:
  "map_of item ''quantity'' = None \<Longrightarrow> map_of (with_quantity item) ''quantity'' = Some 1"
  by (simp add: with_quantity_def map_add_def)

lemma compute_subtotal_with_quantity:
  "compute_subtotal d (map with_quantity cart) acc = compute_subtotal d cart acc"
  by (induction cart arbitrary: acc)
    (simp_all add: with_quantity_pid with_quantity_qty Let_def split: option.splits)

lemma insert_order_items_with_quantity:
  "insert_order_items oid (map with_quantity cart) d = insert_order_items oid cart d"
  by (induction cart arbitrary: d)
    (simp_all add: with_quantity_pid with_quantity_qty Let_def split: option.splits)

lemma create_order_with_quantity:
  "create_order name email phone address (map with_quantity cart) tax service delivery uuid now d
     = create_order name email phone address cart tax service delivery uuid now d"
  by (simp add: create_order_def create_order_txn_def compute_subtotal_with_quantity
        insert_order_items_with_quantity Let_def cong: sum.case_cong if_cong)

lemma items_match_quantity:
  "items_match d oid cart rows \<Longrightarrow> map quantity rows = map item_qty cart"
  unfolding items_match_def by (induction cart rows rule: list_all2_induct) simp_all

text \<open>
  Claim C9. A cart entry without the key \<open>quantity\<close> is not rejected: \<^verbatim>\<open>create_order\<close>
  does on a cart what it does on the cart with the quantity 1 written into every entry
  that omits it. For such an entry the quantity is 1 and its part of the subtotal is
  the price; when an order is created, its subtotal is the rounded sum with these
  quantities, and the order-item rows added carry them, one row per entry.
\<close>

theorem create_order_default_quantity:
  "create_order name email phone address cart tax service delivery uuid now d
     = create_order name email phone address (map with_quantity cart) tax service delivery
         uuid now d
   \<and> (\<forall>item\<in>set cart. map_of item ''quantity'' = None \<longrightarrow>
         item_qty item = 1
         \<and> map_of (with_quantity item) ''quantity'' = Some 1
         \<and> line_total d item
             = (case select_price d (item_pid item) of None \<Rightarrow> 0 | Some pr \<Rightarrow> pr))
   \<and> (\<forall>row d'.
         create_order name email phone address cart tax service delivery uuid now d
           = (Inr row, d')
         \<longrightarrow> amount row = round2 (cart_sum d cart)
           \<and> (\<exists>rows. order_items d' = order_items d @ rows
                 \<and> map quantity rows = map item_qty cart))"
proof -
  have same: "create_order name email phone address cart tax service delivery uuid now d
     = create_order name email phone address (map with_quantity cart) tax service delivery
         uuid now d"
    by (simp add: create_order_with_quantity)
  have dflt: "item_qty item = 1
         \<and> map_of (with_quantity item) ''quantity'' = Some 1
         \<and> line_total d item
             = (case select_price d (item_pid item) of None \<Rightarrow> 0 | Some pr \<Rightarrow> pr)"
    if "map_of item ''quantity'' = None" for item :: cart_item
  proof -
    from that have "item_qty item = 1"
      by (simp add: item_qty_def)
    with that show ?thesis
      by (simp add: with_quantity_written line_total_def split: option.splits)
  qed
  have rows: "amount row = round2 (cart_sum d cart)
           \<and> (\<exists>rows. order_items d' = order_items d @ rows
                 \<and> map quantity rows = map item_qty cart)"
    if res: "create_order name email phone address cart tax service delivery uuid now d
           = (Inr row, d')" for row d'
  proof -
    from create_order_Inr [OF res] have
      k: "\<forall>item\<in>set cart. known_product d item"
      and f: "uuid \<notin> set (map transaction_uuid (orders d))"
      by simp_all
    from create_order_known [OF k f, of name email phone address tax service delivery now] res
    obtain rows where
      row: "row = new_order name email phone address cart tax service delivery uuid now d"
      and it: "order_items d' = order_items d @ rows"
      and m: "items_match d (next_rowid (order_seq d) (map o_id (orders d))) cart rows"
      by auto
    have "amount row = round2 (cart_sum d cart)"
      by (simp add: row new_order_def)
    with it items_match_quantity [OF m] show ?thesis
      by blast
  qed
  from same dflt rows show ?thesis
    by blast
qed

lemma shop_known_bare: "known_product shop_db [(''productId'', 1)]"
  by (simp add: known_product_def item_pid_def get_product_def shop_db_eq)

lemma shop_sum_bare: "cart_sum shop_db [[(''productId'', 1)]] = 5999 / 100"
  by (simp add: cart_sum_def line_total_def item_pid_def item_qty_def shop_price_1)

lemma round2_5999: "round2 (5999 / 100) = 5999 / 100"
  by code_simp

text \<open>
  The instance of C9 on the seeded shop: an order for product 1 without a quantity has
  subtotal 59.99 and one item row with quantity 1.
\<close>

theorem create_order_default_quantity_witness:
  "map_of [(''productId'', 1 :: int)] ''quantity'' = None
   \<and> item_qty [(''productId'', 1)] = 1
   \<and> line_total shop_db [(''productId'', 1)] = 5999 / 100
   \<and> (\<exists>row d' rows.
         create_order ''Asha'' ''asha@example.com'' ''9800000000'' ''Kathmandu''
           [[(''productId'', 1)]] 0 0 0 ''u1'' ''2024-01-01 00:00:00'' shop_db = (Inr row, d')
         \<and> amount row = 5999 / 100
         \<and> order_items d' = order_items shop_db @ rows
         \<and> map quantity rows = [1])"
proof -
  let ?item = "[(''productId'', 1 :: int)]"
  note inst = create_order_default_quantity [of "''Asha''" "''asha@example.com''"
      "''9800000000''" "''Kathmandu''" "[?item]" 0 0 0 "''u1''" "''2024-01-01 00:00:00''" shop_db]
  have none: "map_of ?item ''quantity'' = None"
    by simp
  have "?item \<in> set [?item]"
    by simp
  with inst none have q: "item_qty ?item = 1"
    and lt: "line_total shop_db ?item
      = (case select_price shop_db (item_pid ?item) of None \<Rightarrow> 0 | Some pr \<Rightarrow> pr)"
    by blast+
  have lt': "line_total shop_db ?item = 5999 / 100"
    using lt by (simp add: item_pid_def shop_price_1)
  have k: "\<forall>item\<in>set [?item]. known_product shop_db item"
    by (simp add: shop_known_bare)
  have f: "''u1'' \<notin> set (map transaction_uuid (orders shop_db))"
    by (simp add: shop_orders)
  from create_order_known [OF k f] obtain row d' where
    res: "create_order ''Asha'' ''asha@example.com'' ''9800000000'' ''Kathmandu''
           [?item] 0 0 0 ''u1'' ''2024-01-01 00:00:00'' shop_db = (Inr row, d')"
    by blast
  with inst obtain rows where
    a: "amount row = round2 (cart_sum shop_db [?item])"
    and r: "order_items d' = order_items shop_db @ rows"
      "map quantity rows = map item_qty [?item]"
    by blast
  have a': "amount row = 5999 / 100"
    by (simp only: a shop_sum_bare round2_5999)
  have q': "map quantity rows = [1]"
    using r(2) q by simp
  have "\<exists>row d' rows.
         create_order ''Asha'' ''asha@example.com'' ''9800000000'' ''Kathmandu''
           [?item] 0 0 0 ''u1'' ''2024-01-01 00:00:00'' shop_db = (Inr row, d')
         \<and> amount row = 5999 / 100
         \<and> order_items d' = order_items shop_db @ rows
         \<and> map quantity rows = [1]"
    by (intro exI [of _ row] exI [of _ d'] exI [of _ rows] conjI res a' r(1) q')
  with none q lt' show ?thesis
    by (intro conjI)
qed

section \<open>Claims about payment initiation\<close>






lemma form_data_signature:
  "map_of (form_data lib cfg row) ''signature''
     = Some (b64encode lib (hmac_sha256 lib (ESEWA_SECRET_KEY cfg) (signing_string cfg row)))"
  by (simp add: form_data_def generate_signature_def signing_string_def Let_def)

lemma api_initiate_payment_found:
  assumes "get_order_by_id d oid = Some row" and "oid \<noteq> 0"
  shows "api_initiate_payment lib cfg (Some \<lparr>r_orderId = Some oid\<rparr>) d
     = (JSONResponse
          (JObj [(''formData'', JObj (map (\<lambda>(k, v). (k, JStr v)) (form_data lib cfg row))),
                 (''gatewayUrl'', JStr (ESEWA_FORM_URL cfg))]),
        d)"
  using assms by (simp add: api_initiate_payment_def)

lemma api_initiate_payment_state: "snd (api_initiate_payment lib cfg body d) = d"
  by (simp add: api_initiate_payment_def split: option.splits)


lemma order_db_lookup: "get_order_by_id order_db 1 = Some (hd (orders order_db))"
  by (simp add: get_order_by_id_def order_db_orders)




text \<open>
  Claim C8. \<^verbatim>\<open>api_initiate_payment\<close> only reads: the database after the call is the
  database before it, and a second call returns what the first did. What it returns
  depends on the order only through the fields it reads: orders with the same
  \<open>total_amount\<close> and \<open>transaction_uuid\<close> get the same signature under the same
  configuration, and when the other amounts agree as well, the same response,
  whatever else differs in the two databases.
\<close>

theorem initiate_payment_deterministic:
  "snd (api_initiate_payment lib cfg body d) = d
   \<and> api_initiate_payment lib cfg body (snd (api_initiate_payment lib cfg body d))
       = api_initiate_payment lib cfg body d
   \<and> (get_order_by_id d oid = Some row \<and> get_order_by_id d' oid' = Some row'
        \<and> total_amount row' = total_amount row
        \<and> transaction_uuid row' = transaction_uuid row
      \<longrightarrow> map_of (form_data lib cfg row') ''signature''
            = map_of (form_data lib cfg row) ''signature''
          \<and> (oid \<noteq> 0 \<and> oid' \<noteq> 0 \<and> amount row' = amount row
               \<and> tax_amount row' = tax_amount row
               \<and> service_charge row' = service_charge row
               \<and> delivery_charge row' = delivery_charge row
             \<longrightarrow> fst (api_initiate_payment lib cfg (Some \<lparr>r_orderId = Some oid'\<rparr>) d')
                   = fst (api_initiate_payment lib cfg (Some \<lparr>r_orderId = Some oid\<rparr>) d)))"
proof -
  have sig: "map_of (form_data lib cfg row') ''signature''
            = map_of (form_data lib cfg row) ''signature''"
    if "total_amount row' = total_amount row" "transaction_uuid row' = transaction_uuid row"
    using that by (simp add: form_data_signature signing_string_def)
  have form: "form_data lib cfg row' = form_data lib cfg row"
    if "total_amount row' = total_amount row" "transaction_uuid row' = transaction_uuid row"
      "amount row' = amount row" "tax_amount row' = tax_amount row"
      "service_charge row' = service_charge row" "delivery_charge row' = delivery_charge row"
    using that by (simp add: form_data_def)
  have resp: "fst (api_initiate_payment lib cfg (Some \<lparr>r_orderId = Some oid'\<rparr>) d')
                   = fst (api_initiate_payment lib cfg (Some \<lparr>r_orderId = Some oid\<rparr>) d)"
    if "get_order_by_id d oid = Some row" "get_order_by_id d' oid' = Some row'"
      "oid \<noteq> 0" "oid' \<noteq> 0" "form_data lib cfg row' = form_data lib cfg row"
    using that by (simp add: api_initiate_payment_found)
  show ?thesis
  proof (intro conjI impI)
    show "snd (api_initiate_payment lib cfg body d) = d"
      by (rule api_initiate_payment_state)
    then show "api_initiate_payment lib cfg body (snd (api_initiate_payment lib cfg body d))
       = api_initiate_payment lib cfg body d"
      by simp
  next
    assume "get_order_by_id d oid = Some row \<and> get_order_by_id d' oid' = Some row'
        \<and> total_amount row' = total_amount row
        \<and> transaction_uuid row' = transaction_uuid row"
    then show "map_of (form_data lib cfg row') ''signature''
            = map_of (form_data lib cfg row) ''signature''"
      using sig by blast
  next
    assume a: "get_order_by_id d oid = Some row \<and> get_order_by_id d' oid' = Some row'
        \<and> total_amount row' = total_amount row
        \<and> transaction_uuid row' = transaction_uuid row"
      and b: "oid \<noteq> 0 \<and> oid' \<noteq> 0 \<and> amount row' = amount row
               \<and> tax_amount row' = tax_amount row
               \<and> service_charge row' = service_charge row
               \<and> delivery_charge row' = delivery_charge row"
    from a b have "form_data lib cfg row' = form_data lib cfg row"
      by (intro form) simp_all
    with a b show "fst (api_initiate_payment lib cfg (Some \<lparr>r_orderId = Some oid'\<rparr>) d')
                   = fst (api_initiate_payment lib cfg (Some \<lparr>r_orderId = Some oid\<rparr>) d)"
      by (intro resp) simp_all
  qed
qed

lemma confirmed_orders:
  "orders (snd (admin_confirm_order lib0 ''u1'' order_db))
     = [(hd (orders order_db))\<lparr>status := ''COMPLETED''\<rparr>]"
  by (simp add: admin_confirm_order_eq set_status_def order_db_orders)

lemma confirmed_lookup:
  "get_order_by_id (snd (admin_confirm_order lib0 ''u1'' order_db)) 1
     = Some ((hd (orders order_db))\<lparr>status := ''COMPLETED''\<rparr>)"
  by (simp add: get_order_by_id_def confirmed_orders) (simp add: order_db_orders)

text \<open>
  The instance of C8 on the shop with one order, before and after the admin confirms
  it: the status differs, the signature and the whole response do not.
\<close>

theorem initiate_payment_deterministic_witness:
  "get_order_by_id order_db 1 = Some (hd (orders order_db))
   \<and> get_order_by_id (snd (admin_confirm_order lib0 ''u1'' order_db)) 1
       = Some ((hd (orders order_db))\<lparr>status := ''COMPLETED''\<rparr>)
   \<and> status (hd (orders order_db)) = ''INITIATED''
   \<and> map_of (form_data lib0 default_config ((hd (orders order_db))\<lparr>status := ''COMPLETED''\<rparr>))
         ''signature''
       = map_of (form_data lib0 default_config (hd (orders order_db))) ''signature''
   \<and> fst (api_initiate_payment lib0 default_config (Some \<lparr>r_orderId = Some 1\<rparr>)
            (snd (admin_confirm_order lib0 ''u1'' order_db)))
       = fst (api_initiate_payment lib0 default_config (Some \<lparr>r_orderId = Some 1\<rparr>) order_db)
   \<and> snd (api_initiate_payment lib0 default_config (Some \<lparr>r_orderId = Some 1\<rparr>) order_db)
       = order_db"
proof -
  let ?row = "hd (orders order_db)"
  let ?row' = "(hd (orders order_db))\<lparr>status := ''COMPLETED''\<rparr>"
  let ?d' = "snd (admin_confirm_order lib0 ''u1'' order_db)"
  note inst = initiate_payment_deterministic [of lib0 default_config
      "Some \<lparr>r_orderId = Some 1\<rparr>" order_db 1 ?row ?d' 1 ?row']
  have same: "total_amount ?row' = total_amount ?row"
    "transaction_uuid ?row' = transaction_uuid ?row"
    "amount ?row' = amount ?row" "tax_amount ?row' = tax_amount ?row"
    "service_charge ?row' = service_charge ?row"
    "delivery_charge ?row' = delivery_charge ?row"
    by simp_all
  have nz: "(1 :: int) \<noteq> 0" by simp
  have st: "status ?row = ''INITIATED''"
    by (simp add: order_db_orders)
  from inst have 1: "snd (api_initiate_payment lib0 default_config (Some \<lparr>r_orderId = Some 1\<rparr>) order_db)
       = order_db"
    by (rule conjunct1)
  from inst order_db_lookup confirmed_lookup same
  have 2: "map_of (form_data lib0 default_config ?row') ''signature''
       = map_of (form_data lib0 default_config ?row) ''signature''"
    by blast
  from inst order_db_lookup confirmed_lookup same nz
  have 3: "fst (api_initiate_payment lib0 default_config (Some \<lparr>r_orderId = Some 1\<rparr>) ?d')
       = fst (api_initiate_payment lib0 default_config (Some \<lparr>r_orderId = Some 1\<rparr>) order_db)"
    by blast
  show ?thesis
    by (intro conjI order_db_lookup confirmed_lookup st 1 2 3)
qed

section \<open>The order status over a server run\<close>

lemma advances_nth:
  "advances d d' \<longleftrightarrow>
     length (orders d) \<le> length (orders d')
     \<and> (\<forall>i<length (orders d). row_advances (orders d ! i) (orders d' ! i))"
  by (auto simp: advances_def list_all2_conv_all_nth)

lemma row_advances_refl: "row_advances r r"
  by (simp add: row_advances_def)

lemma row_advances_trans: "row_advances a b \<Longrightarrow> row_advances b c \<Longrightarrow> row_advances a c"
  by (auto simp: row_advances_def)

lemma advances_refl: "advances d d"
  by (simp add: advances_nth row_advances_refl)

lemma advances_trans: "advances a b \<Longrightarrow> advances b c \<Longrightarrow> advances a c"
  unfolding advances_nth
  by (meson le_trans less_le_trans row_advances_trans)

lemma advances_same: "orders d' = orders d \<Longrightarrow> advances d d'"
  by (simp add: advances_nth row_advances_refl)

lemma advances_append: "orders d' = orders d @ rows \<Longrightarrow> advances d d'"
  by (simp add: advances_nth row_advances_refl nth_append)

lemma advances_set_status:
  "orders d' = set_status lib p ''COMPLETED'' (orders d) \<Longrightarrow> advances d d'"
  by (simp add: advances_nth set_status_def row_advances_def)

lemma status_ok_append:
  "status_ok d \<Longrightarrow> orders d' = orders d @ [row] \<Longrightarrow> status row = ''INITIATED''
   \<Longrightarrow> status_ok d'"
  by (simp add: status_ok_def)

lemma status_ok_set_status:
  "status_ok d \<Longrightarrow> orders d' = set_status lib p ''COMPLETED'' (orders d) \<Longrightarrow> status_ok d'"
  by (auto simp: status_ok_def set_status_def list_all_iff)

lemma status_ok_same: "status_ok d \<Longrightarrow> orders d' = orders d \<Longrightarrow> status_ok d'"
  by (simp add: status_ok_def)

lemma orders_insert_product: "orders (snd (insert_product row d)) = orders d"
  by (cases row) (simp add: insert_product_def Let_def)

lemma orders_startup: "orders (startup d) = orders d"
  by (simp add: startup_def init_db_def seed_products_def orders_insert_product)

lemma orders_admin_products: "orders (snd (admin_products edit_id delete_id d)) = orders d"
  by (simp add: admin_products_def delete_product_def split: option.splits)

lemma orders_admin_save_product:
  "orders (snd (admin_save_product pid name description pr image_url d)) = orders d"
  by (simp add: admin_save_product_def update_product_def create_product_def
        orders_insert_product split: option.splits)

lemma create_order_orders:
  "orders (snd (create_order name email phone address cart tax service delivery uuid now d))
     = orders d
   \<or> (\<exists>row. orders (snd (create_order name email phone address cart tax service delivery
                           uuid now d)) = orders d @ [row]
          \<and> status row = ''INITIATED'')"
proof (cases "(\<forall>item\<in>set cart. known_product d item)
    \<and> uuid \<notin> set (map transaction_uuid (orders d))")
  case True
  from create_order_known [of cart d uuid name email phone address tax service delivery now] True
  obtain d' where
    "create_order name email phone address cart tax service delivery uuid now d
       = (Inr (new_order name email phone address cart tax service delivery uuid now d), d')"
    "orders d' = orders d
          @ [new_order name email phone address cart tax service delivery uuid now d]"
    by blast
  moreover have "status (new_order name email phone address cart tax service delivery uuid now d)
      = ''INITIATED''"
    by (simp add: new_order_def)
  ultimately show ?thesis
    by auto
next
  case False
  obtain res d' where r: "create_order name email phone address cart tax service delivery uuid now d
      = (res, d')"
    by (cases "create_order name email phone address cart tax service delivery uuid now d")
  have "d' = d"
  proof (cases res)
    case (Inl e)
    with r show ?thesis
      by (auto simp: create_order_def split: sum.splits prod.splits)
  next
    case (Inr row)
    with r create_order_Inr False show ?thesis
      by blast
  qed
  with r show ?thesis by simp
qed

lemma api_create_order_orders:
  "orders (snd (api_create_order body uuid now d)) = orders d
   \<or> (\<exists>row. orders (snd (api_create_order body uuid now d)) = orders d @ [row]
          \<and> status row = ''INITIATED'')"
proof -
  have "snd (api_create_order body uuid now d) = d
    \<or> (\<exists>name email phone address cart tax service delivery.
          snd (api_create_order body uuid now d)
            = snd (create_order name email phone address cart tax service delivery uuid now d))"
  proof (cases "\<exists>name email phone address cart tax service delivery.
      body = Some \<lparr>r_customerName = Some name, r_customerEmail = Some email,
                  r_customerPhone = Some phone, r_customerAddress = Some address,
                  r_cart = Some cart, r_tax_amount = Some tax,
                  r_service_charge = Some service, r_delivery_charge = Some delivery\<rparr>")
    case True
    then obtain name email phone address cart tax service delivery where
      b: "body = Some \<lparr>r_customerName = Some name, r_customerEmail = Some email,
                  r_customerPhone = Some phone, r_customerAddress = Some address,
                  r_cart = Some cart, r_tax_amount = Some tax,
                  r_service_charge = Some service, r_delivery_charge = Some delivery\<rparr>"
      by blast
    have "snd (api_create_order body uuid now d)
            = snd (create_order name email phone address cart tax service delivery uuid now d)"
      by (simp add: api_create_order_def b split: prod.splits sum.splits exn.splits)
    then show ?thesis by blast
  next
    case False
    have "snd (api_create_order body uuid now d) = d"
    proof (cases body)
      case None
      then show ?thesis by (simp add: api_create_order_def)
    next
      case (Some data)
      with False have "r_customerName data = None \<or> r_customerEmail data = None
        \<or> r_customerPhone data = None \<or> r_customerAddress data = None
        \<or> r_cart data = None \<or> r_tax_amount data = None
        \<or> r_service_charge data = None \<or> r_delivery_charge data = None"
        by (cases data) auto
      with Some show ?thesis
        by (auto simp: api_create_order_def missing_field_def split: option.splits)
    qed
    then show ?thesis by blast
  qed
  then show ?thesis
  proof
    assume "snd (api_create_order body uuid now d) = d"
    then show ?thesis by simp
  next
    assume "\<exists>name email phone address cart tax service delivery.
          snd (api_create_order body uuid now d)
            = snd (create_order name email phone address cart tax service delivery uuid now d)"
    then obtain name email phone address cart tax service delivery where
      e: "snd (api_create_order body uuid now d)
            = snd (create_order name email phone address cart tax service delivery uuid now d)"
      by blast
    from create_order_orders [of name email phone address cart tax service delivery uuid now d]
    show ?thesis
      by (simp only: e)
  qed
qed

lemma esewa_callback_orders:
  "orders (snd (esewa_callback lib cfg query d)) = orders d
   \<or> (fst (esewa_callback lib cfg query d) = success_page
      \<and> (\<exists>p. orders (snd (esewa_callback lib cfg query d))
                 = set_status lib p ''COMPLETED'' (orders d)))"
proof (cases "callback_payload lib query")
  case None
  then show ?thesis by (simp add: esewa_callback_rejected)
next
  case (Some payload)
  show ?thesis
  proof (cases "signature_ok lib cfg payload \<and> dict_get payload ''status'' = JStr ''COMPLETE''")
    case False
    with Some have "esewa_callback lib cfg query d = (failure_page, d)"
      by (intro esewa_callback_rejected) auto
    then show ?thesis by simp
  next
    case True
    with Some show ?thesis
      by (cases "bind_param (dict_get payload ''transaction_uuid'')")
        (auto simp: esewa_callback_verified)
  qed
qed

lemma admin_confirm_order_orders:
  "orders (snd (admin_confirm_order lib uuid d))
     = set_status lib (SqlText uuid) ''COMPLETED'' (orders d)"
  by (simp add: admin_confirm_order_eq)

text \<open>The three ways in which a request changes the order table.\<close>

lemma serve_orders:
  "orders (snd (serve lib cfg req d)) = orders d
   \<or> (creates_order req
      \<and> (\<exists>row. orders (snd (serve lib cfg req d)) = orders d @ [row]
             \<and> status row = ''INITIATED''))
   \<or> (completes_order req (fst (serve lib cfg req d))
      \<and> (\<exists>p. orders (snd (serve lib cfg req d)) = set_status lib p ''COMPLETED'' (orders d)))"
proof (cases req)
  case (ApiCreateOrder body uuid now)
  then show ?thesis
    using api_create_order_orders [of body uuid now d] by auto
next
  case (EsewaCallback query)
  then show ?thesis
    using esewa_callback_orders [of lib cfg query d] by auto
next
  case (AdminConfirmOrder uuid)
  then show ?thesis
    using admin_confirm_order_orders [of lib uuid d] by auto
qed (simp_all add: api_initiate_payment_state orders_admin_products orders_admin_save_product)

lemma serve_advances: "advances d (snd (serve lib cfg req d))"
  using serve_orders [of lib cfg req d]
  by (auto intro: advances_same advances_append advances_set_status)

lemma serve_status_ok: "status_ok d \<Longrightarrow> status_ok (snd (serve lib cfg req d))"
  using serve_orders [of lib cfg req d]
  by (auto intro: status_ok_same status_ok_append status_ok_set_status)

lemma length_set_status: "length (set_status lib p s rows) = length rows"
  by (simp add: set_status_def)

lemma serve_added:
  "list_all (\<lambda>r. status r = ''INITIATED'') (added_orders d (snd (serve lib cfg req d)))
   \<and> (added_orders d (snd (serve lib cfg req d)) \<noteq> [] \<longrightarrow> creates_order req)"
  using serve_orders [of lib cfg req d]
  by (auto simp: added_orders_def length_set_status)

lemma serve_changed:
  "map status (take (length (orders d)) (orders (snd (serve lib cfg req d))))
     \<noteq> map status (orders d)
   \<Longrightarrow> completes_order req (fst (serve lib cfg req d))"
  using serve_orders [of lib cfg req d]
  by auto

lemma serve_all_advances: "advances d (serve_all lib cfg reqs d)"
proof (induction reqs arbitrary: d)
  case Nil
  show ?case by (simp add: serve_all_def advances_refl)
next
  case (Cons req reqs)
  have "advances d (snd (serve lib cfg req d))"
    by (rule serve_advances)
  moreover have "advances (snd (serve lib cfg req d))
      (serve_all lib cfg reqs (snd (serve lib cfg req d)))"
    by (rule Cons.IH)
  ultimately show ?case
    by (simp add: serve_all_def advances_trans)
qed

lemma serve_all_status_ok: "status_ok d \<Longrightarrow> status_ok (serve_all lib cfg reqs d)"
proof (induction reqs arbitrary: d)
  case Nil
  then show ?case by (simp add: serve_all_def)
next
  case (Cons req reqs)
  from Cons.prems have "status_ok (snd (serve lib cfg req d))"
    by (rule serve_status_ok)
  then have "status_ok (serve_all lib cfg reqs (snd (serve lib cfg req d)))"
    by (rule Cons.IH)
  then show ?case
    by (simp add: serve_all_def)
qed

lemma run_advances: "advances d (run lib cfg reqs d)"
proof -
  have "advances d (startup d)"
    by (simp add: advances_same orders_startup)
  moreover have "advances (startup d) (run lib cfg reqs d)"
    by (simp add: run_def serve_all_advances)
  ultimately show ?thesis
    by (rule advances_trans)
qed

lemma run_status_ok: "status_ok d \<Longrightarrow> status_ok (run lib cfg reqs d)"
proof -
  assume "status_ok d"
  then have "status_ok (startup d)"
    by (rule status_ok_same) (rule orders_startup)
  then show ?thesis
    by (simp add: run_def serve_all_status_ok)
qed

lemma advances_completed:
  assumes "advances d d'" and "i < length (orders d)"
    and "status (orders d ! i) = ''COMPLETED''"
  shows "status (orders d' ! i) = ''COMPLETED''"
  using assms by (auto simp: advances_nth row_advances_def)

text \<open>
  Claim C6. In every state that a server run reaches from the empty database, and from
  any database whose orders are \<open>INITIATED\<close> or \<open>COMPLETED\<close>, every order is
  \<open>INITIATED\<close> or \<open>COMPLETED\<close>. Over a run, and over each request, the orders keep
  their place, id and transaction id, and a status stays what it is or becomes
  \<open>COMPLETED\<close>: a \<open>COMPLETED\<close> order stays \<open>COMPLETED\<close>. A request adds only
  \<open>INITIATED\<close> orders, and only \<^verbatim>\<open>api_create_order\<close> adds any; the status of a
  stored order changes only by a callback that is answered with the success page or by
  \<^verbatim>\<open>admin_confirm_order\<close>. So \<open>FAILED\<close> is never written.
\<close>

theorem order_status_invariant:
  "status_ok (run lib cfg reqs empty_db)
   \<and> (status_ok d \<longrightarrow> status_ok (run lib cfg reqs d))
   \<and> advances d (run lib cfg reqs d)
   \<and> (\<forall>i<length (orders d). status (orders d ! i) = ''COMPLETED''
         \<longrightarrow> status (orders (run lib cfg reqs d) ! i) = ''COMPLETED'')
   \<and> advances d (snd (serve lib cfg req d))
   \<and> list_all (\<lambda>r. status r = ''INITIATED'') (added_orders d (snd (serve lib cfg req d)))
   \<and> (added_orders d (snd (serve lib cfg req d)) \<noteq> [] \<longrightarrow> creates_order req)
   \<and> (map status (take (length (orders d)) (orders (snd (serve lib cfg req d))))
         \<noteq> map status (orders d)
       \<longrightarrow> completes_order req (fst (serve lib cfg req d)))"
proof -
  have "status_ok empty_db"
    by (simp add: status_ok_def empty_db_def)
  then have "status_ok (run lib cfg reqs empty_db)"
    by (rule run_status_ok)
  moreover have "\<forall>i<length (orders d). status (orders d ! i) = ''COMPLETED''
         \<longrightarrow> status (orders (run lib cfg reqs d) ! i) = ''COMPLETED''"
    using advances_completed [OF run_advances] by blast
  ultimately show ?thesis
    using run_status_ok [of d lib cfg reqs] run_advances [of d lib cfg reqs]
      serve_advances [of d lib cfg req] serve_added [of d lib cfg req]
      serve_changed [of d lib cfg req]
    by blast
qed

lemma serve_sample_request:
  "serve lib0 default_config (ApiCreateOrder (Some sample_request) ''u1'' ''2024-01-01 00:00:00'')
     shop_db
   = (JSONResponse (JObj [(''orderId'', JInt 1)]), order_db)"
  by (simp add: api_create_order_def sample_request_def sample_order order_db_def)

lemma serve_paid:
  "serve lib0 default_config (EsewaCallback [''data'' \<mapsto> ''paid'']) order_db
   = (success_page,
      order_db\<lparr>orders := [(hd (orders order_db))\<lparr>status := ''COMPLETED''\<rparr>]\<rparr>)"
  by (simp add: callback_paid set_status_def order_db_orders)

lemma run_sample:
  "run lib0 default_config
     [ApiCreateOrder (Some sample_request) ''u1'' ''2024-01-01 00:00:00'',
      EsewaCallback [''data'' \<mapsto> ''paid'']] empty_db
   = order_db\<lparr>orders := [(hd (orders order_db))\<lparr>status := ''COMPLETED''\<rparr>]\<rparr>"
  by (simp add: run_def serve_all_def shop_db_def [symmetric] serve_sample_request serve_paid
        del: serve.simps)

text \<open>
  Instances of C6: the run that creates the sample order and receives its verified
  callback ends with the order \<open>COMPLETED\<close>; the creating request adds a row; the
  callback changes a status; a confirmed order stays \<open>COMPLETED\<close> over a later run.
\<close>

theorem order_status_invariant_witness:
  "status_ok (run lib0 default_config
     [ApiCreateOrder (Some sample_request) ''u1'' ''2024-01-01 00:00:00'',
      EsewaCallback [''data'' \<mapsto> ''paid'']] empty_db)
   \<and> map status (orders (run lib0 default_config
     [ApiCreateOrder (Some sample_request) ''u1'' ''2024-01-01 00:00:00'',
      EsewaCallback [''data'' \<mapsto> ''paid'']] empty_db)) = [''COMPLETED'']
   \<and> added_orders shop_db (snd (serve lib0 default_config
         (ApiCreateOrder (Some sample_request) ''u1'' ''2024-01-01 00:00:00'') shop_db)) \<noteq> []
   \<and> creates_order (ApiCreateOrder (Some sample_request) ''u1'' ''2024-01-01 00:00:00'')
   \<and> map status (take (length (orders order_db))
         (orders (snd (serve lib0 default_config (EsewaCallback [''data'' \<mapsto> ''paid''])
                         order_db))))
       \<noteq> map status (orders order_db)
   \<and> completes_order (EsewaCallback [''data'' \<mapsto> ''paid''])
         (fst (serve lib0 default_config (EsewaCallback [''data'' \<mapsto> ''paid'']) order_db))
   \<and> status (orders (snd (admin_confirm_order lib0 ''u1'' order_db)) ! 0) = ''COMPLETED''
   \<and> status (orders (run lib0 default_config [EsewaCallback [''data'' \<mapsto> ''pending'']]
                 (snd (admin_confirm_order lib0 ''u1'' order_db))) ! 0) = ''COMPLETED''"
proof -
  let ?create = "ApiCreateOrder (Some sample_request) ''u1'' ''2024-01-01 00:00:00''"
  let ?paid = "EsewaCallback [''data'' \<mapsto> ''paid'']"
  let ?confirmed = "snd (admin_confirm_order lib0 ''u1'' order_db)"
  have 1: "status_ok (run lib0 default_config [?create, ?paid] empty_db)"
    using order_status_invariant [of lib0 default_config "[?create, ?paid]"] by (rule conjunct1)
  have 2: "map status (orders (run lib0 default_config [?create, ?paid] empty_db))
      = [''COMPLETED'']"
    by (simp add: run_sample)
  have 3: "added_orders shop_db (snd (serve lib0 default_config ?create shop_db)) \<noteq> []"
    by (simp add: added_orders_def serve_sample_request shop_orders order_db_orders
          del: serve.simps)
  with order_status_invariant [of lib0 default_config "[]" shop_db ?create]
  have 4: "creates_order ?create"
    by blast
  have 5: "map status (take (length (orders order_db))
         (orders (snd (serve lib0 default_config ?paid order_db))))
       \<noteq> map status (orders order_db)"
    by (simp add: serve_paid del: serve.simps) (simp add: order_db_orders)
  with order_status_invariant [of lib0 default_config "[]" order_db ?paid]
  have 6: "completes_order ?paid (fst (serve lib0 default_config ?paid order_db))"
    by blast
  have 7: "status (orders ?confirmed ! 0) = ''COMPLETED''"
    by (simp add: confirmed_orders)
  have "0 < length (orders ?confirmed)"
    by (simp add: confirmed_orders)
  with 7 order_status_invariant [of lib0 default_config
      "[EsewaCallback [''data'' \<mapsto> ''pending'']]" ?confirmed]
  have 8: "status (orders (run lib0 default_config [EsewaCallback [''data'' \<mapsto> ''pending'']]
                 ?confirmed) ! 0) = ''COMPLETED''"
    by blast
  show ?thesis
    by (intro conjI 1 2 3 4 5 6 7 8)
qed

end
